theory Spec2Isabelle
  imports Complex_Main "HOL-Library.Word" "HOL-Library.Char_ord" "HOL-Library.List_Lexorder"
begin

section \<open>The standard ordered map\<close>

text \<open>
  Both classes keep their tables in \<^verbatim>\<open>std::map\<close>: a container with unique keys
  whose iteration order is the ascending order of the keys. It is modelled as an
  association list kept in strictly ascending key order. For \<^verbatim>\<open>std::string\<close> keys
  the order is the byte-wise lexicographic one (a proper prefix is smaller), which is the
  order of \<^typ>\<open>string\<close> given by the imported list and character orders.
\<close>

type_synonym ('k, 'v) std_map = "('k \<times> 'v) list"

definition std_map_ok :: "('k::linorder, 'v) std_map \<Rightarrow> bool" where
  "std_map_ok m = sorted_wrt (<) (map fst m)"

text \<open>\<^verbatim>\<open>m.find(k)\<close>: \<open>None\<close> stands for \<^verbatim>\<open>m.end()\<close>.\<close>

definition find_map :: "('k, 'v) std_map \<Rightarrow> 'k \<Rightarrow> 'v option" where
  "find_map m k = map_of m k"

text \<open>
  \<^verbatim>\<open>m.insert(std::make_pair(k, v))\<close>: adds the pair at its place in the key order
  when the key is absent, and leaves the map as it is when the key is present.
\<close>

definition insert_map :: "('k::linorder, 'v) std_map \<Rightarrow> 'k \<times> 'v \<Rightarrow> ('k, 'v) std_map" where
  "insert_map m kv =
     (case find_map m (fst kv) of
        Some old \<Rightarrow> m
      | None \<Rightarrow> insort_key fst kv m)"

section \<open>CameraParameters\<close>

text \<open>
  The macros \<^verbatim>\<open>PARAM_ID_*\<close> and \<^verbatim>\<open>PARAM_TYPE_*\<close> come from the header
  \<^verbatim>\<open>CameraParameters.h\<close>; their values are parameters of the model.
\<close>

record param_macros =
  PARAM_ID_CAMERA_MODE :: int
  PARAM_ID_BRIGHTNESS :: int
  PARAM_ID_CONTRAST :: int
  PARAM_ID_SATURATION :: int
  PARAM_ID_HUE :: int
  PARAM_ID_WHITE_BALANCE_MODE :: int
  PARAM_ID_GAMMA :: int
  PARAM_ID_GAIN :: int
  PARAM_ID_POWER_LINE_FREQ_MODE :: int
  PARAM_ID_WHITE_BALANCE_TEMPERATURE :: int
  PARAM_ID_SHARPNESS :: int
  PARAM_ID_BACKLIGHT_COMPENSATION :: int
  PARAM_ID_EXPOSURE_MODE :: int
  PARAM_ID_EXPOSURE_ABSOLUTE :: int
  PARAM_ID_IMAGE_SIZE :: int
  PARAM_ID_IMAGE_FORMAT :: int
  PARAM_ID_PIXEL_FORMAT :: int
  PARAM_ID_SCENE_MODE :: int
  PARAM_ID_VIDEO_SIZE :: int
  PARAM_ID_VIDEO_FRAME_FORMAT :: int
  PARAM_ID_VIDEO_SNAPSHOT_SUPPORTED :: int
  PARAM_TYPE_UINT32 :: int
  PARAM_TYPE_INT32 :: int

definition CAMERA_MODE :: string where "CAMERA_MODE = ''camera-mode''"
definition BRIGHTNESS :: string where "BRIGHTNESS = ''brightness''"
definition CONTRAST :: string where "CONTRAST = ''contrast''"
definition SATURATION :: string where "SATURATION = ''saturation''"
definition HUE :: string where "HUE = ''hue''"
definition WHITE_BALANCE_MODE :: string where "WHITE_BALANCE_MODE = ''wb-mode''"
definition GAMMA :: string where "GAMMA = ''gamma''"
definition GAIN :: string where "GAIN = ''gain''"
definition POWER_LINE_FREQ_MODE :: string where "POWER_LINE_FREQ_MODE = ''power-mode''"
definition WHITE_BALANCE_TEMPERATURE :: string where "WHITE_BALANCE_TEMPERATURE = ''wb-temp''"
definition SHARPNESS :: string where "SHARPNESS = ''sharpness''"
definition BACKLIGHT_COMPENSATION :: string where "BACKLIGHT_COMPENSATION = ''backlight''"
definition EXPOSURE_MODE :: string where "EXPOSURE_MODE = ''exp-mode''"
definition EXPOSURE_ABSOLUTE :: string where "EXPOSURE_ABSOLUTE = ''exp-absolute''"
definition IMAGE_SIZE :: string where "IMAGE_SIZE = ''image-size''"
definition IMAGE_FORMAT :: string where "IMAGE_FORMAT = ''image-format''"
definition PIXEL_FORMAT :: string where "PIXEL_FORMAT = ''pixel-format''"
definition SCENE_MODE :: string where "SCENE_MODE = ''scene-mode''"
definition VIDEO_SIZE :: string where "VIDEO_SIZE = ''video-size''"
definition VIDEO_FRAME_FORMAT :: string where "VIDEO_FRAME_FORMAT = ''video-format''"
definition VIDEO_SNAPSHOT_SUPPORTED :: string where "VIDEO_SNAPSHOT_SUPPORTED = ''video-snapshot''"

text \<open>The three tables of the class. Values are \<^verbatim>\<open>std::string\<close>s and carry no type tag.\<close>

record CameraParameters =
  paramValue :: "(string, string) std_map"
  paramValuesSupported :: "(string, string) std_map"
  paramIdType :: "(string, int \<times> int) std_map"

text \<open>The two overloads of \<^verbatim>\<open>CameraParameters::set\<close> and \<^verbatim>\<open>CameraParameters::get\<close>.\<close>

definition set_str_map :: "(string, string) std_map \<Rightarrow> string \<Rightarrow> string \<Rightarrow> (string, string) std_map" where
  "set_str_map pMap key val = insert_map pMap (key, val)"

definition set_pair_map ::
  "(string, int \<times> int) std_map \<Rightarrow> string \<Rightarrow> int \<times> int \<Rightarrow> (string, int \<times> int) std_map" where
  "set_pair_map pMap key val = insert_map pMap (key, val)"

definition get_str_map :: "(string, string) std_map \<Rightarrow> string \<Rightarrow> string" where
  "get_str_map pMap key = (case find_map pMap key of Some v \<Rightarrow> v | None \<Rightarrow> [])"

text \<open>The public operations: each returns its \<^verbatim>\<open>int\<close> result and the object after the call.\<close>

definition setParameterSupported :: "CameraParameters \<Rightarrow> string \<Rightarrow> string \<Rightarrow> int \<times> CameraParameters" where
  "setParameterSupported cp key val =
     (1, cp\<lparr>paramValuesSupported := set_str_map (paramValuesSupported cp) key val\<rparr>)"

definition setParameter :: "CameraParameters \<Rightarrow> string \<Rightarrow> string \<Rightarrow> int \<times> CameraParameters" where
  "setParameter cp key val = (1, cp\<lparr>paramValue := set_str_map (paramValue cp) key val\<rparr>)"

definition getParameter :: "CameraParameters \<Rightarrow> string \<Rightarrow> string" where
  "getParameter cp key = get_str_map (paramValue cp) key"

definition getParameterID :: "CameraParameters \<Rightarrow> string \<Rightarrow> int" where
  "getParameterID cp param =
     (case find_map (paramIdType cp) param of Some it \<Rightarrow> fst it | None \<Rightarrow> - 1)"

definition getParameterType :: "CameraParameters \<Rightarrow> string \<Rightarrow> int" where
  "getParameterType cp param =
     (case find_map (paramIdType cp) param of Some it \<Rightarrow> snd it | None \<Rightarrow> - 1)"

text \<open>
  \<^verbatim>\<open>initParamIdType\<close>: the inserts of the source, in the source's order
  (\<^verbatim>\<open>WHITE_BALANCE_MODE\<close> is inserted a second time after \<^verbatim>\<open>PIXEL_FORMAT\<close>).
\<close>

definition schema_inserts :: "param_macros \<Rightarrow> (string \<times> int \<times> int) list" where
  "schema_inserts pm =
    [(CAMERA_MODE, PARAM_ID_CAMERA_MODE pm, PARAM_TYPE_UINT32 pm),
     (BRIGHTNESS, PARAM_ID_BRIGHTNESS pm, PARAM_TYPE_UINT32 pm),
     (CONTRAST, PARAM_ID_CONTRAST pm, PARAM_TYPE_UINT32 pm),
     (SATURATION, PARAM_ID_SATURATION pm, PARAM_TYPE_UINT32 pm),
     (HUE, PARAM_ID_HUE pm, PARAM_TYPE_INT32 pm),
     (WHITE_BALANCE_MODE, PARAM_ID_WHITE_BALANCE_MODE pm, PARAM_TYPE_UINT32 pm),
     (GAMMA, PARAM_ID_GAMMA pm, PARAM_TYPE_UINT32 pm),
     (GAIN, PARAM_ID_GAIN pm, PARAM_TYPE_UINT32 pm),
     (POWER_LINE_FREQ_MODE, PARAM_ID_POWER_LINE_FREQ_MODE pm, PARAM_TYPE_UINT32 pm),
     (WHITE_BALANCE_TEMPERATURE, PARAM_ID_WHITE_BALANCE_TEMPERATURE pm, PARAM_TYPE_UINT32 pm),
     (SHARPNESS, PARAM_ID_SHARPNESS pm, PARAM_TYPE_UINT32 pm),
     (BACKLIGHT_COMPENSATION, PARAM_ID_BACKLIGHT_COMPENSATION pm, PARAM_TYPE_UINT32 pm),
     (EXPOSURE_MODE, PARAM_ID_EXPOSURE_MODE pm, PARAM_TYPE_UINT32 pm),
     (EXPOSURE_ABSOLUTE, PARAM_ID_EXPOSURE_ABSOLUTE pm, PARAM_TYPE_UINT32 pm),
     (IMAGE_SIZE, PARAM_ID_IMAGE_SIZE pm, PARAM_TYPE_UINT32 pm),
     (IMAGE_FORMAT, PARAM_ID_IMAGE_FORMAT pm, PARAM_TYPE_UINT32 pm),
     (PIXEL_FORMAT, PARAM_ID_PIXEL_FORMAT pm, PARAM_TYPE_UINT32 pm),
     (WHITE_BALANCE_MODE, PARAM_ID_WHITE_BALANCE_MODE pm, PARAM_TYPE_UINT32 pm),
     (SCENE_MODE, PARAM_ID_SCENE_MODE pm, PARAM_TYPE_UINT32 pm),
     (VIDEO_SIZE, PARAM_ID_VIDEO_SIZE pm, PARAM_TYPE_UINT32 pm),
     (VIDEO_FRAME_FORMAT, PARAM_ID_VIDEO_FRAME_FORMAT pm, PARAM_TYPE_UINT32 pm),
     (VIDEO_SNAPSHOT_SUPPORTED, PARAM_ID_VIDEO_SNAPSHOT_SUPPORTED pm, PARAM_TYPE_UINT32 pm)]"

definition initParamIdType :: "param_macros \<Rightarrow> CameraParameters \<Rightarrow> CameraParameters" where
  "initParamIdType pm cp =
     cp\<lparr>paramIdType :=
          foldl (\<lambda>pMap kv. set_pair_map pMap (fst kv) (snd kv)) (paramIdType cp) (schema_inserts pm)\<rparr>"

text \<open>The constructor: three empty tables, then \<^verbatim>\<open>initParamIdType\<close>.\<close>

definition new_CameraParameters :: "param_macros \<Rightarrow> CameraParameters" where
  "new_CameraParameters pm =
     initParamIdType pm \<lparr>paramValue = [], paramValuesSupported = [], paramIdType = []\<rparr>"

section \<open>Streams and the frame-size resolver\<close>

text \<open>
  Of \<^verbatim>\<open>Stream\<close> (declared in a header outside these files) the server reads the
  identifier, the streaming flag, the formats with their frame sizes, and the selected
  frame size. The selection and the resolver's result are pointers into the stream's own
  lists, or null; they are only read for their width and height, so they are modelled by
  the frame size they point to, \<open>None\<close> for null.
\<close>

record FrameSize =
  width :: "32 word"
  height :: "32 word"

record Format =
  frame_sizes :: "FrameSize list"

record Stream =
  stream_id :: "8 word"
  is_streaming :: bool
  formats :: "Format list"
  sel_frame_size :: "FrameSize option"

definition UINT32_MAX :: "32 word" where
  "UINT32_MAX = 0xFFFFFFFF"

text \<open>
  \<^verbatim>\<open>_find_best_frame_size\<close>. The condition under which a pair that is not the exact
  match becomes the new \<^verbatim>\<open>best\<close>:
  \<^verbatim>\<open>!best || (fs.width <= w && fs.width >= best->width && fs.height <= h && fs.height >= best->height)\<close>.
\<close>

definition replaces_best :: "32 word \<Rightarrow> 32 word \<Rightarrow> FrameSize option \<Rightarrow> FrameSize \<Rightarrow> bool" where
  "replaces_best w h best fs =
     (case best of
        None \<Rightarrow> True
      | Some b \<Rightarrow> width fs \<le> w \<and> width fs \<ge> width b \<and> height fs \<le> h \<and> height fs \<ge> height b)"

text \<open>
  The inner loop over the frame sizes of one format: \<open>Inl fs\<close> when the function
  returns from inside the loop with the exact match, \<open>Inr best\<close> when the loop ends.
\<close>

fun scan_frame_sizes ::
  "32 word \<Rightarrow> 32 word \<Rightarrow> FrameSize option \<Rightarrow> FrameSize list \<Rightarrow> FrameSize + FrameSize option" where
  "scan_frame_sizes w h best [] = Inr best"
| "scan_frame_sizes w h best (fs # rest) =
     (if width fs = w \<and> height fs = h then Inl fs
      else if replaces_best w h best fs then scan_frame_sizes w h (Some fs) rest
      else scan_frame_sizes w h best rest)"

text \<open>The outer loop over the formats.\<close>

fun scan_formats ::
  "32 word \<Rightarrow> 32 word \<Rightarrow> FrameSize option \<Rightarrow> Format list \<Rightarrow> FrameSize option" where
  "scan_formats w h best [] = best"
| "scan_formats w h best (f # rest) =
     (case scan_frame_sizes w h best (frame_sizes f) of
        Inl fs \<Rightarrow> Some fs
      | Inr best' \<Rightarrow> scan_formats w h best' rest)"

definition find_best_frame_size :: "Stream \<Rightarrow> 32 word \<Rightarrow> 32 word \<Rightarrow> FrameSize option" where
  "find_best_frame_size s w h = scan_formats w h None (formats s)"

text \<open>Vocabulary for the statements about the resolver.\<close>

definition advertised :: "Stream \<Rightarrow> FrameSize list" where
  \<comment> \<open>every (format, frame size) pair, in enumeration order\<close>
  "advertised s = concat (map frame_sizes (formats s))"

definition exact :: "32 word \<Rightarrow> 32 word \<Rightarrow> FrameSize \<Rightarrow> bool" where
  "exact w h fs = (width fs = w \<and> height fs = h)"

definition fits :: "32 word \<Rightarrow> 32 word \<Rightarrow> FrameSize \<Rightarrow> bool" where
  \<comment> \<open>under the ceiling\<close>
  "fits w h fs = (width fs \<le> w \<and> height fs \<le> h)"

definition covers :: "FrameSize \<Rightarrow> FrameSize \<Rightarrow> bool" where
  \<comment> \<open>\<open>m\<close> is at least as wide and as high as \<open>fs\<close>\<close>
  "covers m fs = (width fs \<le> width m \<and> height fs \<le> height m)"

definition lex_le :: "FrameSize \<Rightarrow> FrameSize \<Rightarrow> bool" where
  \<comment> \<open>the lexicographic order on (width, height)\<close>
  "lex_le a b = (width a < width b \<or> (width a = width b \<and> height a \<le> height b))"

section \<open>MAVLink messages\<close>

text \<open>
  The MAVLink library is not part of the repository. Of each decoded message the model
  keeps the target addressing and the fields the handlers read; enumerators keep their
  names. A \<^verbatim>\<open>float\<close> field is a rational, an infinity or a NaN; the handlers only
  compare it with 1 and convert it to \<^verbatim>\<open>unsigned int\<close>.
\<close>

datatype float32 = Finite rat | PosInf | NegInf | NaN

definition MAV_COMP_ID_CAMERA :: int where "MAV_COMP_ID_CAMERA = 100"
definition MAV_COMP_ID_CAMERA2 :: int where "MAV_COMP_ID_CAMERA2 = 101"
definition MAV_COMP_ID_CAMERA3 :: int where "MAV_COMP_ID_CAMERA3 = 102"
definition MAV_COMP_ID_CAMERA4 :: int where "MAV_COMP_ID_CAMERA4 = 103"
definition MAV_COMP_ID_CAMERA5 :: int where "MAV_COMP_ID_CAMERA5 = 104"
definition MAV_COMP_ID_CAMERA6 :: int where "MAV_COMP_ID_CAMERA6 = 105"

text \<open>
  The commands the dispatcher's \<^verbatim>\<open>switch\<close> gives a branch of their own; every other
  command number (the ones listed above \<^verbatim>\<open>default\<close> included) is \<open>MAV_CMD_other\<close>.
\<close>

datatype MAV_CMD =
    MAV_CMD_REQUEST_CAMERA_INFORMATION
  | MAV_CMD_REQUEST_VIDEO_STREAM_INFORMATION
  | MAV_CMD_REQUEST_CAMERA_SETTINGS
  | MAV_CMD_REQUEST_CAMERA_CAPTURE_STATUS
  | MAV_CMD_RESET_CAMERA_SETTINGS
  | MAV_CMD_REQUEST_STORAGE_INFORMATION
  | MAV_CMD_STORAGE_FORMAT
  | MAV_CMD_other "16 word"

datatype MAV_RESULT = MAV_RESULT_ACCEPTED | MAV_RESULT_FAILED

datatype PARAM_ACK = PARAM_ACK_ACCEPTED | PARAM_ACK_FAILED

record mavlink_target =
  target_system :: "8 word"
  target_component :: "8 word"

record mavlink_command_long = mavlink_target +
  command :: MAV_CMD
  param1 :: float32
  param2 :: float32

record mavlink_set_video_stream_settings = mavlink_target +
  camera_id :: "8 word"
  resolution_h :: "16 word"
  resolution_v :: "16 word"

record mavlink_param_ext_request_read = mavlink_target +
  read_param_id :: string

record mavlink_param_ext_request_list = mavlink_target +
  list_unused :: unit

record mavlink_param_ext_set = mavlink_target +
  set_param_id :: string
  set_param_value :: string
  set_param_type :: "8 word"

text \<open>A decoded inbound message: the payload chosen by \<^verbatim>\<open>msg->msgid\<close>.\<close>

datatype mavlink_message =
    COMMAND_LONG mavlink_command_long
  | SET_VIDEO_STREAM_SETTINGS mavlink_set_video_stream_settings
  | PARAM_EXT_REQUEST_READ mavlink_param_ext_request_read
  | PARAM_EXT_REQUEST_LIST mavlink_param_ext_request_list
  | PARAM_EXT_SET mavlink_param_ext_set
  | OTHER_MESSAGE "32 word"

record CameraInfo =
  vendorName :: string
  modelName :: string
  firmware_version :: "32 word"
  focal_length :: float32
  sensor_size_h :: float32
  sensor_size_v :: float32
  resolution_h_info :: "16 word"
  resolution_v_info :: "16 word"
  lens_id :: "8 word"
  flags :: "32 word"
  cam_definition_version :: "16 word"
  cam_definition_uri :: string

text \<open>
  Outbound messages, with the arguments in the order of the pack calls. A buffer that the
  handler sends without having written it is \<open>None\<close>:
  \<^item> \<open>COMMAND_ACK command result progress\<close>
  \<^item> \<open>CAMERA_INFORMATION time_boot_ms info\<close>
  \<^item> \<open>CAMERA_SETTINGS time_boot_ms mode\<close>
  \<^item> \<open>STORAGE_INFORMATION time_boot_ms storage_id storage_count status total used available read_speed write_speed\<close>
  \<^item> \<open>VIDEO_STREAM_INFORMATION camera_id status framerate resolution_h resolution_v bitrate rotation uri\<close>
  \<^item> \<open>PARAM_EXT_VALUE param_count param_index param_id param_value param_type\<close>
  \<^item> \<open>PARAM_EXT_ACK param_id param_value param_type param_result\<close>
\<close>

datatype mavlink_payload =
    COMMAND_ACK MAV_CMD MAV_RESULT "8 word"
  | CAMERA_INFORMATION "32 word" CameraInfo
  | CAMERA_SETTINGS "32 word" "8 word"
  | STORAGE_INFORMATION "32 word" "8 word" "8 word" "8 word" rat rat rat rat rat
  | VIDEO_STREAM_INFORMATION "8 word" bool rat "16 word" "16 word" "32 word" "16 word" string
  | PARAM_EXT_VALUE "16 word" "16 word" string "string option" "8 word"
  | PARAM_EXT_ACK string "string option" "8 word option" PARAM_ACK

record mavlink_out =
  sysid :: int
  compid :: int
  payload :: mavlink_payload

section \<open>C strings\<close>

definition NUL :: char where
  "NUL = CHR 0x00"

definition c_str :: "string \<Rightarrow> string" where
  \<comment> \<open>a character array read as a C string\<close>
  "c_str buf = takeWhile (\<lambda>c. c \<noteq> NUL) buf"

definition strncpy :: "nat \<Rightarrow> string \<Rightarrow> string" where
  \<comment> \<open>the \<open>n\<close> bytes the destination holds afterwards\<close>
  "strncpy n src = take n (c_str src) @ replicate (n - length (c_str src)) NUL"

fun dec_nat :: "nat \<Rightarrow> string" where
  "dec_nat n =
     (if n < 10 then [''0123456789'' ! n]
      else dec_nat (n div 10) @ [''0123456789'' ! (n mod 10)])"

declare dec_nat.simps [simp del]

definition dec_int :: "int \<Rightarrow> string" where
  \<comment> \<open>\<^verbatim>\<open>%d\<close>\<close>
  "dec_int i = (if i < 0 then CHR ''-'' # dec_nat (nat (- i)) else dec_nat (nat i))"

section \<open>The server and what it runs against\<close>

text \<open>
  A \<^verbatim>\<open>CameraComponent *\<close> is an address, 0 for the null pointer; the server's state
  holds the objects the addresses point to.
\<close>

type_synonym ptr = nat

definition nullptr :: ptr where
  "nullptr = 0"

type_synonym sockaddr_in = "32 word \<times> 16 word"

text \<open>
  The virtual methods of \<^verbatim>\<open>CameraComponent\<close> are implemented outside these files and
  are parameters of the model, over any type \<open>'dev\<close> of component states. \<open>getParam\<close>
  gives its result and what it wrote to the caller's buffer, if anything; \<open>setParam\<close>
  gives its result and the component afterwards.
\<close>

record 'dev CameraComponent_ops =
  getCameraInfo :: "'dev \<Rightarrow> CameraInfo"
  getParam :: "'dev \<Rightarrow> string \<Rightarrow> bool \<times> string option"
  setParam :: "'dev \<Rightarrow> string \<Rightarrow> string \<Rightarrow> 8 word \<Rightarrow> bool \<times> 'dev"
  getParamType :: "'dev \<Rightarrow> string \<Rightarrow> int"
  getParamList :: "'dev \<Rightarrow> (string, string) std_map"

text \<open>
  The other collaborators: whether the \<open>n\<close>-th write handed to the UDP socket succeeds,
  the RTSP server's URI, and what the platform yields for a \<^verbatim>\<open>float\<close> outside the
  range of \<^verbatim>\<open>unsigned int\<close>.
\<close>

record 'dev environment = "'dev CameraComponent_ops" +
  udp_write :: "nat \<Rightarrow> bool"
  get_rtsp_uri :: "string option \<Rightarrow> Stream \<Rightarrow> string \<Rightarrow> string"
  float_out_of_range :: "float32 \<Rightarrow> 32 word"

text \<open>
  The members of \<^verbatim>\<open>MavlinkServer\<close> the handlers use. \<open>outbox\<close> lists, in order,
  every datagram handed to the socket with its destination; \<open>crashed\<close> records a
  dereferenced null pointer.
\<close>

record 'dev MavlinkServer =
  streams :: "Stream list"
  system_id :: int
  comp_id :: int
  broadcast_addr :: sockaddr_in
  rtsp_server_addr :: "string option"
  compIdToObj :: "(int, ptr) std_map"
  objects :: "ptr \<Rightarrow> 'dev"
  outbox :: "(sockaddr_in \<times> mavlink_out) list"
  crashed :: bool

definition float_to_uint :: "'dev environment \<Rightarrow> float32 \<Rightarrow> 32 word" where
  "float_to_uint env f =
     (case f of
        Finite q \<Rightarrow>
          (let t = (if 0 \<le> q then \<lfloor>q\<rfloor> else - \<lfloor>- q\<rfloor>)
           in if 0 \<le> t \<and> t < 2 ^ 32 then word_of_int t else float_out_of_range env f)
      | PosInf \<Rightarrow> float_out_of_range env f
      | NegInf \<Rightarrow> float_out_of_range env f
      | NaN \<Rightarrow> float_out_of_range env f)"

text \<open>
  \<^verbatim>\<open>_send_mavlink_message\<close>: the encoded length of a MAVLink message is never 0, so
  the result is the result of the write.
\<close>

definition send_mavlink_message ::
  "'dev environment \<Rightarrow> sockaddr_in option \<Rightarrow> mavlink_out \<Rightarrow> 'dev MavlinkServer
   \<Rightarrow> bool \<times> 'dev MavlinkServer" where
  "send_mavlink_message env addr msg st =
     (udp_write env (length (outbox st)),
      st\<lparr>outbox := outbox st @
           [(case addr of Some a \<Rightarrow> a | None \<Rightarrow> broadcast_addr st, msg)]\<rparr>)"

definition send_ack ::
  "'dev environment \<Rightarrow> sockaddr_in \<Rightarrow> MAV_CMD \<Rightarrow> int \<Rightarrow> bool \<Rightarrow> 'dev MavlinkServer
   \<Rightarrow> 'dev MavlinkServer" where
  "send_ack env addr cmd compId success st =
     snd (send_mavlink_message env (Some addr)
        \<lparr>sysid = system_id st, compid = compId,
         payload = COMMAND_ACK cmd
           (if success then MAV_RESULT_ACCEPTED else MAV_RESULT_FAILED) 255\<rparr> st)"

definition getCameraComponent :: "'dev MavlinkServer \<Rightarrow> int \<Rightarrow> ptr" where
  "getCameraComponent st compID =
     (if compID < MAV_COMP_ID_CAMERA \<or> compID > MAV_COMP_ID_CAMERA6 then nullptr
      else (case find_map (compIdToObj st) compID of
              Some camComp \<Rightarrow> camComp
            | None \<Rightarrow> nullptr))"

section \<open>The handlers\<close>

text \<open>
  The three information requests. Each answers \<^verbatim>\<open>param1 != 1\<close> with a positive
  acknowledgement at once; otherwise it looks the component up, sends the information
  message when there is one, returns without acknowledging when that write fails, and
  acknowledges with the outcome of the lookup otherwise.
\<close>

definition handle_request_camera_information ::
  "'dev environment \<Rightarrow> sockaddr_in \<Rightarrow> mavlink_command_long \<Rightarrow> 'dev MavlinkServer
   \<Rightarrow> 'dev MavlinkServer" where
  "handle_request_camera_information env addr cmd st =
     (if param1 cmd \<noteq> Finite 1
      then send_ack env addr (command cmd) (uint (target_component cmd)) True st
      else
        (let tgtComp = getCameraComponent st (uint (target_component cmd)) in
         if tgtComp \<noteq> nullptr then
           (case send_mavlink_message env (Some addr)
                   \<lparr>sysid = system_id st, compid = uint (target_component cmd),
                    payload = CAMERA_INFORMATION 0 (getCameraInfo env (objects st tgtComp))\<rparr> st of
              (sent, st1) \<Rightarrow>
                if \<not> sent then st1
                else send_ack env addr (command cmd) (uint (target_component cmd)) True st1)
         else send_ack env addr (command cmd) (uint (target_component cmd)) False st))"

definition handle_request_camera_settings ::
  "'dev environment \<Rightarrow> sockaddr_in \<Rightarrow> mavlink_command_long \<Rightarrow> 'dev MavlinkServer
   \<Rightarrow> 'dev MavlinkServer" where
  "handle_request_camera_settings env addr cmd st =
     (if param1 cmd \<noteq> Finite 1
      then send_ack env addr (command cmd) (uint (target_component cmd)) True st
      else
        (let tgtComp = getCameraComponent st (uint (target_component cmd)) in
         if tgtComp \<noteq> nullptr then
           (case send_mavlink_message env (Some addr)
                   \<lparr>sysid = system_id st, compid = uint (target_component cmd),
                    payload = CAMERA_SETTINGS 0 1\<rparr> st of
              (sent, st1) \<Rightarrow>
                if \<not> sent then st1
                else send_ack env addr (command cmd) (uint (target_component cmd)) True st1)
         else send_ack env addr (command cmd) (uint (target_component cmd)) False st))"

definition handle_request_storage_information ::
  "'dev environment \<Rightarrow> sockaddr_in \<Rightarrow> mavlink_command_long \<Rightarrow> 'dev MavlinkServer
   \<Rightarrow> 'dev MavlinkServer" where
  "handle_request_storage_information env addr cmd st =
     (if param1 cmd \<noteq> Finite 1
      then send_ack env addr (command cmd) (uint (target_component cmd)) True st
      else
        (let tgtComp = getCameraComponent st (uint (target_component cmd)) in
         if tgtComp \<noteq> nullptr then
           (case send_mavlink_message env (Some addr)
                   \<lparr>sysid = system_id st, compid = uint (target_component cmd),
                    payload = STORAGE_INFORMATION 0 1 1 2 50 0 50 128 128\<rparr> st of
              (sent, st1) \<Rightarrow>
                if \<not> sent then st1
                else send_ack env addr (command cmd) (uint (target_component cmd)) True st1)
         else send_ack env addr (command cmd) (uint (target_component cmd)) False st))"

text \<open>
  \<^verbatim>\<open>_handle_camera_video_stream_request\<close>. The query buffer of 35 bytes is declared
  before the loop and written only for a stream with a selection, so a later stream
  without one is sent the text left by an earlier one. With no selection and no advertised
  frame size the handler reads through a null pointer.
\<close>

definition format_query :: "FrameSize \<Rightarrow> string" where
  "format_query fs =
     ''?width='' @ dec_int (sint (width fs)) @ ''&height='' @ dec_int (sint (height fs))"

fun video_stream_loop ::
  "'dev environment \<Rightarrow> sockaddr_in \<Rightarrow> 32 word \<Rightarrow> string \<Rightarrow> Stream list \<Rightarrow> 'dev MavlinkServer
   \<Rightarrow> 'dev MavlinkServer" where
  "video_stream_loop env addr cam query [] st = st"
| "video_stream_loop env addr cam query (s # rest) st =
     (if cam = 0 \<or> cam = ucast (stream_id s) then
        (let fs = (case sel_frame_size s of
                     Some sel \<Rightarrow> Some sel
                   | None \<Rightarrow> find_best_frame_size s UINT32_MAX UINT32_MAX);
             query' = (case sel_frame_size s of
                         Some sel \<Rightarrow> take 34 (format_query sel)
                       | None \<Rightarrow> query)
         in if (case sel_frame_size s of
                  Some sel \<Rightarrow> length (format_query sel) > 35
                | None \<Rightarrow> False)
            then st
            else
              (case fs of
                 None \<Rightarrow> st\<lparr>crashed := True\<rparr>
               | Some f \<Rightarrow>
                   (case send_mavlink_message env (Some addr)
                           \<lparr>sysid = system_id st, compid = comp_id st,
                            payload = VIDEO_STREAM_INFORMATION (stream_id s) (is_streaming s) 0
                              (ucast (width f)) (ucast (height f)) 0 0
                              (get_rtsp_uri env (rtsp_server_addr st) s query')\<rparr> st of
                      (sent, st1) \<Rightarrow>
                        if \<not> sent then st1
                        else video_stream_loop env addr cam query' rest st1)))
      else video_stream_loop env addr cam query rest st)"

definition handle_camera_video_stream_request ::
  "'dev environment \<Rightarrow> sockaddr_in \<Rightarrow> MAV_CMD \<Rightarrow> 32 word \<Rightarrow> 32 word \<Rightarrow> 'dev MavlinkServer
   \<Rightarrow> 'dev MavlinkServer" where
  "handle_camera_video_stream_request env addr cmd cam action st =
     (if action \<noteq> 1 then st
      else video_stream_loop env addr cam [] (streams st) st)"

text \<open>
  \<^verbatim>\<open>_handle_camera_set_video_stream_settings\<close>: the loop over the streams does not
  stop at a match, so the last stream with the identifier is the one changed.
\<close>

definition find_stream :: "Stream list \<Rightarrow> 8 word \<Rightarrow> nat option" where
  "find_stream ss cam =
     foldl (\<lambda>found i. if stream_id (ss ! i) = cam then Some i else found) None [0..<length ss]"

definition handle_camera_set_video_stream_settings ::
  "'dev environment \<Rightarrow> sockaddr_in \<Rightarrow> mavlink_set_video_stream_settings \<Rightarrow> 'dev MavlinkServer
   \<Rightarrow> 'dev MavlinkServer" where
  "handle_camera_set_video_stream_settings env addr settings st =
     (case find_stream (streams st) (camera_id settings) of
        None \<Rightarrow> st
      | Some i \<Rightarrow>
          (let stream = streams st ! i in
           if resolution_h settings = 0 \<or> resolution_v settings = 0
           then st\<lparr>streams := (streams st)[i := stream\<lparr>sel_frame_size := None\<rparr>]\<rparr>
           else st\<lparr>streams := (streams st)[i := stream\<lparr>sel_frame_size :=
                  find_best_frame_size stream (ucast (resolution_h settings))
                    (ucast (resolution_v settings))\<rparr>]\<rparr>))"

text \<open>
  The extended-parameter handlers. All three do nothing when the lookup of the target
  component gives the null pointer. In the failure branch of the read handler the
  acknowledgement's value buffer is never written and its type is computed from the
  unwritten identifier of the other reply structure: both are \<open>None\<close>.
\<close>

definition handle_param_ext_request_read ::
  "'dev environment \<Rightarrow> sockaddr_in \<Rightarrow> mavlink_param_ext_request_read \<Rightarrow> 'dev MavlinkServer
   \<Rightarrow> 'dev MavlinkServer" where
  "handle_param_ext_request_read env addr param_ext_read st =
     (let tgtComp = getCameraComponent st (uint (target_component param_ext_read)) in
      if tgtComp \<noteq> nullptr then
        (case getParam env (objects st tgtComp) (read_param_id param_ext_read) of
           (ret, written) \<Rightarrow>
             snd (send_mavlink_message env (Some addr)
               \<lparr>sysid = system_id st, compid = uint (target_component param_ext_read),
                payload =
                  (if ret then
                     PARAM_EXT_VALUE 1 0 (strncpy 16 (read_param_id param_ext_read)) written
                       (word_of_int (getParamType env (objects st tgtComp)
                          (strncpy 16 (read_param_id param_ext_read))))
                   else
                     PARAM_EXT_ACK (strncpy 16 (read_param_id param_ext_read)) None None
                       PARAM_ACK_FAILED)\<rparr> st))
      else st)"

fun param_list_loop ::
  "'dev environment \<Rightarrow> sockaddr_in \<Rightarrow> int \<Rightarrow> 'dev \<Rightarrow> 16 word \<Rightarrow> int \<Rightarrow> (string \<times> string) list
   \<Rightarrow> 'dev MavlinkServer \<Rightarrow> 'dev MavlinkServer" where
  "param_list_loop env addr compId dev cnt idx [] st = st"
| "param_list_loop env addr compId dev cnt idx (x # rest) st =
     param_list_loop env addr compId dev cnt (idx + 1) rest
       (snd (send_mavlink_message env (Some addr)
          \<lparr>sysid = system_id st, compid = compId,
           payload = PARAM_EXT_VALUE cnt (word_of_int idx) (strncpy 16 (fst x))
             (Some (strncpy 128 (snd x)))
             (word_of_int (getParamType env dev (strncpy 16 (fst x))))\<rparr> st))"

definition handle_param_ext_request_list ::
  "'dev environment \<Rightarrow> sockaddr_in \<Rightarrow> mavlink_param_ext_request_list \<Rightarrow> 'dev MavlinkServer
   \<Rightarrow> 'dev MavlinkServer" where
  "handle_param_ext_request_list env addr param_list st =
     (let tgtComp = getCameraComponent st (uint (target_component param_list)) in
      if tgtComp \<noteq> nullptr then
        (let paramIdtoValue = getParamList env (objects st tgtComp) in
         param_list_loop env addr (uint (target_component param_list)) (objects st tgtComp)
           (of_nat (length paramIdtoValue)) 0 paramIdtoValue st)
      else st)"

definition handle_param_ext_set ::
  "'dev environment \<Rightarrow> sockaddr_in \<Rightarrow> mavlink_param_ext_set \<Rightarrow> 'dev MavlinkServer
   \<Rightarrow> 'dev MavlinkServer" where
  "handle_param_ext_set env addr param_set st =
     (let tgtComp = getCameraComponent st (uint (target_component param_set)) in
      if tgtComp \<noteq> nullptr then
        (case setParam env (objects st tgtComp) (set_param_id param_set)
                (set_param_value param_set) (set_param_type param_set) of
           (ret, dev') \<Rightarrow>
             snd (send_mavlink_message env (Some addr)
               \<lparr>sysid = system_id st, compid = uint (target_component param_set),
                payload =
                  (if ret then
                     PARAM_EXT_ACK (strncpy 16 (set_param_id param_set))
                       (Some (strncpy 128 (set_param_value param_set)))
                       (Some (set_param_type param_set)) PARAM_ACK_ACCEPTED
                   else
                     PARAM_EXT_ACK (strncpy 16 (set_param_id param_set))
                       (snd (getParam env dev' (strncpy 16 (set_param_id param_set))))
                       (Some (set_param_type param_set)) PARAM_ACK_FAILED)\<rparr>
               (st\<lparr>objects := (objects st)(tgtComp := dev')\<rparr>)))
      else st)"

text \<open>\<^verbatim>\<open>_handle_mavlink_message\<close>: the dispatcher.\<close>

definition handle_mavlink_message ::
  "'dev environment \<Rightarrow> sockaddr_in \<Rightarrow> mavlink_message \<Rightarrow> 'dev MavlinkServer
   \<Rightarrow> 'dev MavlinkServer" where
  "handle_mavlink_message env addr msg st =
     (case msg of
        COMMAND_LONG cmd \<Rightarrow>
          if uint (target_system cmd) \<noteq> system_id st
             \<or> uint (target_component cmd) < MAV_COMP_ID_CAMERA
             \<or> uint (target_component cmd) > MAV_COMP_ID_CAMERA6
          then st
          else
            (case command cmd of
               MAV_CMD_REQUEST_CAMERA_INFORMATION \<Rightarrow>
                 handle_request_camera_information env addr cmd st
             | MAV_CMD_REQUEST_VIDEO_STREAM_INFORMATION \<Rightarrow>
                 handle_camera_video_stream_request env addr (command cmd)
                   (float_to_uint env (param1 cmd)) (float_to_uint env (param2 cmd)) st
             | MAV_CMD_REQUEST_CAMERA_SETTINGS \<Rightarrow>
                 handle_request_camera_settings env addr cmd st
             | MAV_CMD_REQUEST_CAMERA_CAPTURE_STATUS \<Rightarrow> st
             | MAV_CMD_RESET_CAMERA_SETTINGS \<Rightarrow> st
             | MAV_CMD_REQUEST_STORAGE_INFORMATION \<Rightarrow>
                 handle_request_storage_information env addr cmd st
             | MAV_CMD_STORAGE_FORMAT \<Rightarrow> st
             | MAV_CMD_other n \<Rightarrow> st)
      | SET_VIDEO_STREAM_SETTINGS settings \<Rightarrow>
          handle_camera_set_video_stream_settings env addr settings st
      | PARAM_EXT_REQUEST_READ param_ext_read \<Rightarrow>
          handle_param_ext_request_read env addr param_ext_read st
      | PARAM_EXT_REQUEST_LIST param_list \<Rightarrow>
          handle_param_ext_request_list env addr param_list st
      | PARAM_EXT_SET param_set \<Rightarrow>
          handle_param_ext_set env addr param_set st
      | OTHER_MESSAGE msgid \<Rightarrow> st)"

section \<open>The component registry\<close>

text \<open>
  \<^verbatim>\<open>addCameraComponent\<close>: the \<^verbatim>\<open>while\<close> loop over the identifiers, from the value
  \<open>i\<close> of \<^verbatim>\<open>id\<close>; the result is the identifier returned and the map afterwards.
\<close>

function add_scan :: "(int, ptr) std_map \<Rightarrow> ptr \<Rightarrow> int \<Rightarrow> int \<times> (int, ptr) std_map" where
  "add_scan m camComp i =
     (if i < MAV_COMP_ID_CAMERA6 + 1 then
        (if find_map m i = None then (i, insert_map m (i, camComp))
         else add_scan m camComp (i + 1))
      else (i, m))"
  by pat_completeness auto
termination
  by (relation "measure (\<lambda>(m, camComp, i). nat (MAV_COMP_ID_CAMERA6 + 1 - i))") auto

declare add_scan.simps [simp del]

definition addCameraComponent :: "'dev MavlinkServer \<Rightarrow> ptr \<Rightarrow> int \<times> 'dev MavlinkServer" where
  "addCameraComponent st camComp =
     (case add_scan (compIdToObj st) camComp MAV_COMP_ID_CAMERA of
        (i, m) \<Rightarrow> (i, st\<lparr>compIdToObj := m\<rparr>))"

text \<open>
  \<^verbatim>\<open>removeCameraComponent\<close>: the first entry, in key order, whose pointer is the
  argument is erased; a null argument changes nothing.
\<close>

fun erase_first :: "ptr \<Rightarrow> (int, ptr) std_map \<Rightarrow> (int, ptr) std_map" where
  "erase_first camComp [] = []"
| "erase_first camComp (it # rest) =
     (if snd it = camComp then rest else it # erase_first camComp rest)"

definition removeCameraComponent :: "'dev MavlinkServer \<Rightarrow> ptr \<Rightarrow> 'dev MavlinkServer" where
  "removeCameraComponent st camComp =
     (if camComp = nullptr then st
      else st\<lparr>compIdToObj := erase_first camComp (compIdToObj st)\<rparr>)"

section \<open>Observing a handler\<close>

text \<open>The payloads handed to the socket between two states, in order.\<close>

definition sent_by :: "'dev MavlinkServer \<Rightarrow> 'dev MavlinkServer \<Rightarrow> mavlink_payload list" where
  "sent_by st st' = map (\<lambda>entry. payload (snd entry)) (drop (length (outbox st)) (outbox st'))"

text \<open>The acknowledgements among them, as (command, result).\<close>

fun command_acks :: "mavlink_payload list \<Rightarrow> (MAV_CMD \<times> MAV_RESULT) list" where
  "command_acks [] = []"
| "command_acks (COMMAND_ACK cmd res progress # rest) = (cmd, res) # command_acks rest"
| "command_acks (other # rest) = command_acks rest"

text \<open>The parameter identifiers of the \<^verbatim>\<open>PARAM_EXT_VALUE\<close> messages among them.\<close>

fun param_ext_value_ids :: "mavlink_payload list \<Rightarrow> string list" where
  "param_ext_value_ids [] = []"
| "param_ext_value_ids (PARAM_EXT_VALUE cnt idx name val ty # rest) =
     name # param_ext_value_ids rest"
| "param_ext_value_ids (other # rest) = param_ext_value_ids rest"

text \<open>The (identifier, value) pairs of the \<^verbatim>\<open>PARAM_EXT_VALUE\<close> messages among them.\<close>

fun param_ext_value_entries :: "mavlink_payload list \<Rightarrow> (string \<times> string option) list" where
  "param_ext_value_entries [] = []"
| "param_ext_value_entries (PARAM_EXT_VALUE cnt idx name val ty # rest) =
     (name, val) # param_ext_value_entries rest"
| "param_ext_value_entries (other # rest) = param_ext_value_entries rest"

section \<open>Concrete inputs\<close>

text \<open>
  The inputs at which the theorems are instantiated and the code is run. The macro values
  are an arbitrary choice: no statement below depends on them.
\<close>

definition example_macros :: param_macros where
  "example_macros =
     \<lparr>PARAM_ID_CAMERA_MODE = 1, PARAM_ID_BRIGHTNESS = 2, PARAM_ID_CONTRAST = 3,
      PARAM_ID_SATURATION = 4, PARAM_ID_HUE = 5, PARAM_ID_WHITE_BALANCE_MODE = 6,
      PARAM_ID_GAMMA = 7, PARAM_ID_GAIN = 8, PARAM_ID_POWER_LINE_FREQ_MODE = 9,
      PARAM_ID_WHITE_BALANCE_TEMPERATURE = 10, PARAM_ID_SHARPNESS = 11,
      PARAM_ID_BACKLIGHT_COMPENSATION = 12, PARAM_ID_EXPOSURE_MODE = 13,
      PARAM_ID_EXPOSURE_ABSOLUTE = 14, PARAM_ID_IMAGE_SIZE = 15, PARAM_ID_IMAGE_FORMAT = 16,
      PARAM_ID_PIXEL_FORMAT = 17, PARAM_ID_SCENE_MODE = 18, PARAM_ID_VIDEO_SIZE = 19,
      PARAM_ID_VIDEO_FRAME_FORMAT = 20, PARAM_ID_VIDEO_SNAPSHOT_SUPPORTED = 21,
      PARAM_TYPE_UINT32 = 100, PARAM_TYPE_INT32 = 101\<rparr>"

text \<open>A stream with two formats, the sizes ascending.\<close>

definition example_stream :: Stream where
  "example_stream =
     \<lparr>stream_id = 1, is_streaming = False,
      formats = [\<lparr>frame_sizes = [\<lparr>width = 640, height = 480\<rparr>, \<lparr>width = 1280, height = 720\<rparr>]\<rparr>,
                 \<lparr>frame_sizes = [\<lparr>width = 1920, height = 1080\<rparr>]\<rparr>],
      sel_frame_size = None\<rparr>"

text \<open>A stream whose two sizes are not comparable: one is wider, the other higher.\<close>

definition crossed_stream :: Stream where
  "crossed_stream =
     \<lparr>stream_id = 2, is_streaming = False,
      formats = [\<lparr>frame_sizes = [\<lparr>width = 320, height = 960\<rparr>, \<lparr>width = 640, height = 480\<rparr>]\<rparr>],
      sel_frame_size = None\<rparr>"

text \<open>A stream that advertises its largest size first.\<close>

definition descending_stream :: Stream where
  "descending_stream =
     \<lparr>stream_id = 3, is_streaming = False,
      formats = [\<lparr>frame_sizes = [\<lparr>width = 1920, height = 1080\<rparr>, \<lparr>width = 640, height = 480\<rparr>]\<rparr>],
      sel_frame_size = None\<rparr>"

definition example_info :: CameraInfo where
  "example_info =
     \<lparr>vendorName = ''Intel'', modelName = ''X'', firmware_version = 1,
      focal_length = Finite 0, sensor_size_h = Finite 0, sensor_size_v = Finite 0,
      resolution_h_info = 1920, resolution_v_info = 1080, lens_id = 1, flags = 0,
      cam_definition_version = 1, cam_definition_uri = []\<rparr>"

text \<open>
  A camera component that is a parameter store, behind a socket whose writes succeed.
\<close>

definition example_env :: "CameraParameters environment" where
  "example_env =
     \<lparr>getCameraInfo = (\<lambda>dev. example_info),
      getParam = (\<lambda>dev name.
        (case find_map (paramValue dev) (c_str name) of
           Some v \<Rightarrow> (True, Some (strncpy 128 v))
         | None \<Rightarrow> (False, None))),
      setParam = (\<lambda>dev name val ty. (True, snd (setParameter dev (c_str name) (c_str val)))),
      getParamType = (\<lambda>dev name. getParameterType dev (c_str name)),
      getParamList = paramValue,
      udp_write = (\<lambda>n. True),
      get_rtsp_uri = (\<lambda>server_addr s query. ''rtsp://0.0.0.0:8554/video'' @ query),
      float_out_of_range = (\<lambda>f. 0)\<rparr>"

text \<open>
  A server with system id 1 and no component registered; every address holds a store in
  which camera-mode was set first and brightness second.
\<close>

definition example_server :: "CameraParameters MavlinkServer" where
  "example_server =
     \<lparr>streams = [example_stream], system_id = 1, comp_id = 100,
      broadcast_addr = (0xFFFFFFFF, 14550),
      rtsp_server_addr = None, compIdToObj = [],
      objects = (\<lambda>p. snd (setParameter
         (snd (setParameter (new_CameraParameters example_macros) CAMERA_MODE ''1''))
         BRIGHTNESS ''64'')),
      outbox = [], crashed = False\<rparr>"

text \<open>The same server after one component, at address 7, was added.\<close>

definition example_camera_server :: "CameraParameters MavlinkServer" where
  "example_camera_server = snd (addCameraComponent example_server 7)"

text \<open>The same server with all six slots taken.\<close>

definition example_full_server :: "CameraParameters MavlinkServer" where
  "example_full_server =
     example_server\<lparr>compIdToObj := [(100, 11), (101, 12), (102, 13), (103, 14), (104, 15), (105, 16)]\<rparr>"

definition example_peer :: sockaddr_in where
  "example_peer = (0x0A000001, 14550)"

definition example_request :: mavlink_command_long where
  "example_request =
     \<lparr>target_system = 1, target_component = 100,
      command = MAV_CMD_REQUEST_CAMERA_INFORMATION, param1 = Finite 0, param2 = Finite 0\<rparr>"


definition example_read :: mavlink_param_ext_request_read where
  "example_read =
     \<lparr>target_system = 1, target_component = 100, read_param_id = strncpy 16 ''brightness''\<rparr>"

definition example_list :: mavlink_param_ext_request_list where
  "example_list = \<lparr>target_system = 1, target_component = 100, list_unused = ()\<rparr>"

definition example_set :: mavlink_param_ext_set where
  "example_set =
     \<lparr>target_system = 1, target_component = 100, set_param_id = strncpy 16 ''brightness'',
      set_param_value = strncpy 128 ''128'', set_param_type = 1\<rparr>"

section \<open>Facts about the ordered map\<close>

lemmas param_names =
  CAMERA_MODE_def BRIGHTNESS_def CONTRAST_def SATURATION_def HUE_def WHITE_BALANCE_MODE_def
  GAMMA_def GAIN_def POWER_LINE_FREQ_MODE_def WHITE_BALANCE_TEMPERATURE_def SHARPNESS_def
  BACKLIGHT_COMPENSATION_def EXPOSURE_MODE_def EXPOSURE_ABSOLUTE_def IMAGE_SIZE_def
  IMAGE_FORMAT_def PIXEL_FORMAT_def SCENE_MODE_def VIDEO_SIZE_def VIDEO_FRAME_FORMAT_def
  VIDEO_SNAPSHOT_SUPPORTED_def

lemma find_insort_same:
  "map_of m k = None \<Longrightarrow> map_of (insort_key fst (k, v) m) k = Some v"
  by (induction m) auto

lemma find_insort_other:
  "k' \<noteq> k \<Longrightarrow> map_of (insort_key fst (k, v) m) k' = map_of m k'"
  by (induction m) auto

lemma find_insert_absent:
  "find_map m k = None \<Longrightarrow> find_map (insert_map m (k, v)) k = Some v"
  by (simp add: find_map_def insert_map_def find_insort_same)

lemma find_insert_present:
  "find_map m k = Some old \<Longrightarrow> insert_map m (k, v) = m"
  by (simp add: find_map_def insert_map_def)

lemma find_insert_other:
  "k' \<noteq> k \<Longrightarrow> find_map (insert_map m (k, v)) k' = find_map m k'"
  by (simp add: find_map_def insert_map_def find_insort_other split: option.splits)

lemma insort_keeps_order:
  "sorted_wrt (<) (map fst m) \<Longrightarrow> map_of m k = None \<Longrightarrow>
   sorted_wrt (<) (map fst (insort_key fst (k, v) m))"
proof (induction m)
  case Nil
  then show ?case by simp
next
  case (Cons a m)
  from Cons.prems(2) have ne: "fst a \<noteq> k" and rest: "map_of m k = None"
    by (cases a; simp split: if_splits)+
  from Cons.prems(1) have sm: "sorted_wrt (<) (map fst m)" and lt: "\<forall>x\<in>set m. fst a < fst x"
    by auto
  show ?case
  proof (cases "k \<le> fst a")
    case True
    with ne have "k < fst a" by simp
    with Cons.prems(1) show ?thesis by (auto simp: set_insort_key)
  next
    case False
    then have "fst a < k" by simp
    with Cons.IH [OF sm rest] lt False show ?thesis
      by (auto simp: set_insort_key)
  qed
qed

lemma insert_map_ok: "std_map_ok m \<Longrightarrow> std_map_ok (insert_map m kv)"
  by (cases kv) (auto simp: std_map_ok_def insert_map_def find_map_def insort_keeps_order
      split: option.splits)

lemma std_map_ok_distinct: "std_map_ok m \<Longrightarrow> distinct (map fst m)"
  by (simp add: std_map_ok_def strict_sorted_iff)

section \<open>The parameter store\<close>

lemma setParameter_absent:
  "find_map (paramValue cp) key = None \<Longrightarrow>
   getParameter (snd (setParameter cp key val)) key = val"
  by (simp add: setParameter_def getParameter_def get_str_map_def set_str_map_def
      find_insert_absent)

lemma setParameter_present:
  "find_map (paramValue cp) key = Some old \<Longrightarrow>
   snd (setParameter cp key val) = cp"
  by (simp add: setParameter_def set_str_map_def find_insert_present)

lemma setParameter_keeps_old_value:
  "find_map (paramValue cp) key = Some old \<Longrightarrow>
   getParameter (snd (setParameter cp key val)) key = old"
  by (simp add: setParameter_present getParameter_def get_str_map_def)

lemma setParameter_keeps_order:
  "std_map_ok (paramValue cp) \<Longrightarrow> std_map_ok (paramValue (snd (setParameter cp key val)))"
  by (simp add: setParameter_def set_str_map_def insert_map_ok)

lemma schema_keys:
  "map fst (paramIdType (new_CameraParameters pm)) =
     [''backlight'', ''brightness'', ''camera-mode'', ''contrast'', ''exp-absolute'',
      ''exp-mode'', ''gain'', ''gamma'', ''hue'', ''image-format'', ''image-size'',
      ''pixel-format'', ''power-mode'', ''saturation'', ''scene-mode'', ''sharpness'',
      ''video-format'', ''video-size'', ''video-snapshot'', ''wb-mode'', ''wb-temp'']"
  by (simp add: new_CameraParameters_def initParamIdType_def schema_inserts_def set_pair_map_def
      insert_map_def find_map_def param_names)

lemma new_store_empty: "paramValue (new_CameraParameters pm) = []"
  by (simp add: new_CameraParameters_def initParamIdType_def)

text \<open>
  C1 (store round-trip). The claim asks that \<^verbatim>\<open>setParameter(name, v)\<close> followed by
  \<^verbatim>\<open>getParameter(name)\<close> gives \<open>v\<close> also when \<open>name\<close> already had a value. The
  source stores with \<^verbatim>\<open>std::map::insert\<close>, which keeps an existing entry: on a
  fresh object, after brightness is set to 64, setting it to 128 leaves 64 in the store,
  and that is what the read returns. For a name that has no value yet the round trip
  holds (\<open>setParameter_absent\<close>); for a name that has one, the read returns the old
  value (\<open>setParameter_keeps_old_value\<close>).
\<close>

theorem C1_second_set_is_lost:
  "getParameter
     (snd (setParameter (snd (setParameter (new_CameraParameters pm) BRIGHTNESS ''64''))
        BRIGHTNESS ''128''))
     BRIGHTNESS = ''64''"
  by (simp add: setParameter_def getParameter_def get_str_map_def set_str_map_def
      insert_map_def find_map_def new_CameraParameters_def initParamIdType_def BRIGHTNESS_def)

text \<open>
  C5 (type enforcement), as amended. \<^verbatim>\<open>setParameter\<close> takes the value as a bare string
  and makes no type check: for every object, name and value it returns 1, never a
  failure; and when the name has no current value, the value is stored under it (the
  store does not stay as it was).
\<close>

theorem C5_setParameter_checks_no_type:
  "fst (setParameter cp key val) = 1 \<and>
   (find_map (paramValue cp) key = None \<longrightarrow>
      getParameter (snd (setParameter cp key val)) key = val)"
  using setParameter_absent [of cp key val] by (simp add: setParameter_def)

theorem C5_witness:
  "fst (setParameter (new_CameraParameters example_macros) HUE ''128'') = 1 \<and>
   getParameter (snd (setParameter (new_CameraParameters example_macros) HUE ''128'')) HUE = ''128''"
proof -
  have h: "find_map (paramValue (new_CameraParameters example_macros)) HUE = None"
    by (simp add: new_store_empty find_map_def)
  from C5_setParameter_checks_no_type [of "new_CameraParameters example_macros" HUE "''128''"] h
  show ?thesis by blast
qed

text \<open>
  The claim as stated fails: the schema gives \<open>hue\<close> the type \<^verbatim>\<open>PARAM_TYPE_INT32\<close>,
  and a call that sets it, whatever type the caller had in mind for the value, returns 1
  and changes the store.
\<close>

theorem C5_counterexample:
  "getParameterType (new_CameraParameters example_macros) HUE = PARAM_TYPE_INT32 example_macros \<and>
   fst (setParameter (new_CameraParameters example_macros) HUE ''128'') = 1 \<and>
   paramValue (snd (setParameter (new_CameraParameters example_macros) HUE ''128''))
     \<noteq> paramValue (new_CameraParameters example_macros)"
  by (simp add: new_CameraParameters_def initParamIdType_def schema_inserts_def set_pair_map_def
      insert_map_def find_map_def param_names getParameterType_def setParameter_def
      set_str_map_def example_macros_def)

section \<open>The frame-size resolver\<close>

lemma scan_frame_sizes_append:
  "scan_frame_sizes w h best (xs @ ys) =
     (case scan_frame_sizes w h best xs of
        Inl fs \<Rightarrow> Inl fs
      | Inr best' \<Rightarrow> scan_frame_sizes w h best' ys)"
  by (induction xs arbitrary: best) simp_all

lemma scan_formats_flat:
  "scan_formats w h best fmts =
     (case scan_frame_sizes w h best (concat (map frame_sizes fmts)) of
        Inl fs \<Rightarrow> Some fs
      | Inr best' \<Rightarrow> best')"
  by (induction fmts arbitrary: best) (simp_all add: scan_frame_sizes_append split: sum.splits)

text \<open>The two nested loops are one scan of the advertised pairs in enumeration order.\<close>

lemma find_best_flat:
  "find_best_frame_size s w h =
     (case scan_frame_sizes w h None (advertised s) of
        Inl fs \<Rightarrow> Some fs
      | Inr best \<Rightarrow> best)"
  by (simp add: find_best_frame_size_def advertised_def scan_formats_flat)

lemma covers_antisym: "covers m fs \<Longrightarrow> covers fs m \<Longrightarrow> fs = (m::FrameSize)"
  by (cases fs, cases m) (auto simp: covers_def)

lemma covers_lex_le: "covers m fs \<Longrightarrow> lex_le fs m"
  by (auto simp: covers_def lex_le_def)

lemma UINT32_MAX_top: "UINT32_MAX = - 1"
  by (simp add: UINT32_MAX_def)

lemma fits_max: "fits UINT32_MAX UINT32_MAX fs"
  by (simp add: fits_def UINT32_MAX_top)

text \<open>An exact match anywhere in the list is what the scan returns.\<close>

lemma scan_exact:
  "\<exists>fs\<in>set xs. exact w h fs \<Longrightarrow>
   scan_frame_sizes w h best xs = Inl \<lparr>width = w, height = h\<rparr>"
proof (induction xs arbitrary: best)
  case Nil
  then show ?case by simp
next
  case (Cons fs rest)
  show ?case
  proof (cases "exact w h fs")
    case True
    then have "fs = \<lparr>width = w, height = h\<rparr>"
      by (cases fs) (simp add: exact_def)
    with True show ?thesis by (simp add: exact_def)
  next
    case False
    with Cons.prems have "\<exists>x\<in>set rest. exact w h x" by simp
    from Cons.IH [OF this] False show ?thesis by (simp add: exact_def)
  qed
qed

text \<open>
  Once the candidate held fits under the ceiling, the scan ends at the fitting pair that
  covers all fitting pairs, when there is one.
\<close>

lemma scan_reaches_greatest:
  assumes "\<forall>fs\<in>set xs. \<not> exact w h fs"
    and "\<forall>fs\<in>set xs. fits w h fs \<longrightarrow> covers m fs"
    and "fits w h m"
    and "fits w h b" and "covers m b"
    and "m \<in> set xs \<or> b = m"
  shows "scan_frame_sizes w h (Some b) xs = Inr (Some m)"
  using assms
proof (induction xs arbitrary: b)
  case Nil
  then show ?case by simp
next
  case (Cons fs rest)
  have ne: "\<not> (width fs = w \<and> height fs = h)"
    using Cons.prems(1) by (simp add: exact_def)
  have r1: "\<forall>x\<in>set rest. \<not> exact w h x" and r2: "\<forall>x\<in>set rest. fits w h x \<longrightarrow> covers m x"
    using Cons.prems(1,2) by simp_all
  show ?case
  proof (cases "replaces_best w h (Some b) fs")
    case True
    then have f: "fits w h fs" and c: "covers fs b"
      by (simp_all add: replaces_best_def fits_def covers_def)
    from f Cons.prems(2) have cm: "covers m fs" by simp
    have "m \<in> set rest \<or> fs = m"
    proof (cases "b = m")
      case True
      with c cm show ?thesis by (auto dest: covers_antisym)
    next
      case False
      with Cons.prems(6) show ?thesis by auto
    qed
    from Cons.IH [OF r1 r2 Cons.prems(3) f cm this] ne True show ?thesis by simp
  next
    case False
    have "m \<in> set rest \<or> b = m"
    proof (rule ccontr)
      assume a: "\<not> (m \<in> set rest \<or> b = m)"
      with Cons.prems(6) have "fs = m" by auto
      with Cons.prems(3,5) have "replaces_best w h (Some b) fs"
        by (simp add: replaces_best_def fits_def covers_def)
      with False show False by simp
    qed
    from Cons.IH [OF r1 r2 Cons.prems(3,4,5) this] ne False show ?thesis by simp
  qed
qed

text \<open>A candidate that does not fit under the ceiling is never replaced.\<close>

lemma scan_keeps_unfitting:
  assumes "\<forall>fs\<in>set xs. \<not> exact w h fs" and "\<not> fits w h b"
  shows "scan_frame_sizes w h (Some b) xs = Inr (Some b)"
  using assms
proof (induction xs)
  case Nil
  then show ?case by simp
next
  case (Cons fs rest)
  have "\<not> replaces_best w h (Some b) fs"
  proof
    assume "replaces_best w h (Some b) fs"
    then have "width b \<le> w \<and> height b \<le> h"
      by (auto simp: replaces_best_def)
    with Cons.prems(2) show False by (simp add: fits_def)
  qed
  with Cons show ?case by (simp add: exact_def)
qed

text \<open>The first pair becomes the candidate whether it fits or not.\<close>

lemma scan_first:
  "\<not> exact w h x \<Longrightarrow> scan_frame_sizes w h None (x # rest) = scan_frame_sizes w h (Some x) rest"
  by (auto simp: exact_def replaces_best_def)

lemma scan_from_fitting_first:
  assumes "\<forall>fs\<in>set (x # rest). \<not> exact w h fs"
    and "fits w h x"
    and "m \<in> set (x # rest)" and "fits w h m"
    and "\<forall>fs\<in>set (x # rest). fits w h fs \<longrightarrow> covers m fs"
  shows "scan_frame_sizes w h None (x # rest) = Inr (Some m)"
proof -
  have nx: "\<not> exact w h x" and r1: "\<forall>fs\<in>set rest. \<not> exact w h fs"
    using assms(1) by simp_all
  have r2: "\<forall>fs\<in>set rest. fits w h fs \<longrightarrow> covers m fs" and cx: "covers m x"
    using assms(2,5) by simp_all
  have "m \<in> set rest \<or> x = m" using assms(3) by auto
  from scan_reaches_greatest [OF r1 r2 assms(4) assms(2) cx this] scan_first [OF nx]
  show ?thesis by simp
qed

lemma scan_from_unfitting_first:
  assumes "\<forall>fs\<in>set (x # rest). \<not> exact w h fs" and "\<not> fits w h x"
  shows "scan_frame_sizes w h None (x # rest) = Inr (Some x)"
proof -
  have nx: "\<not> exact w h x" and r1: "\<forall>fs\<in>set rest. \<not> exact w h fs"
    using assms(1) by simp_all
  from scan_keeps_unfitting [OF r1 assms(2)] scan_first [OF nx] show ?thesis by simp
qed

lemma advertised_example:
  "advertised example_stream =
     [\<lparr>width = 640, height = 480\<rparr>, \<lparr>width = 1280, height = 720\<rparr>, \<lparr>width = 1920, height = 1080\<rparr>]"
  by (simp add: advertised_def example_stream_def)

text \<open>
  C3 (resolver maximum), as amended. When one advertised frame size is at least as wide
  and as high as every advertised frame size, the resolver called with
  \<open>w = h = UINT32_MAX\<close> returns it, wherever it stands in the advertisement order; it is
  then also the lexicographically greatest advertised frame size.
\<close>

theorem C3_max_returns_covering_size:
  assumes "m \<in> set (advertised s)"
    and "\<forall>fs\<in>set (advertised s). covers m fs"
  shows "find_best_frame_size s UINT32_MAX UINT32_MAX = Some m \<and>
         (\<forall>fs\<in>set (advertised s). lex_le fs m)"
proof -
  have lex: "\<forall>fs\<in>set (advertised s). lex_le fs m"
    using assms(2) by (simp add: covers_lex_le)
  have "find_best_frame_size s UINT32_MAX UINT32_MAX = Some m"
  proof (cases "\<exists>fs\<in>set (advertised s). exact UINT32_MAX UINT32_MAX fs")
    case True
    then obtain fs where fs: "fs \<in> set (advertised s)" "exact UINT32_MAX UINT32_MAX fs"
      by blast
    from fs(1) assms(2) have "covers m fs" by simp
    moreover have "covers fs m"
      using fs(2) by (simp add: covers_def exact_def UINT32_MAX_top)
    ultimately have "fs = m" by (rule covers_antisym)
    with fs(2) have "m = \<lparr>width = UINT32_MAX, height = UINT32_MAX\<rparr>"
      by (cases m) (simp add: exact_def)
    with scan_exact [OF True, of None] show ?thesis
      by (simp add: find_best_flat)
  next
    case False
    from assms(1) obtain x rest where xs: "advertised s = x # rest"
      by (cases "advertised s") auto
    have "scan_frame_sizes UINT32_MAX UINT32_MAX None (x # rest) = Inr (Some m)"
    proof (rule scan_from_fitting_first)
      show "\<forall>fs\<in>set (x # rest). \<not> exact UINT32_MAX UINT32_MAX fs"
        using False xs by simp
      show "m \<in> set (x # rest)" using assms(1) xs by simp
      show "\<forall>fs\<in>set (x # rest). fits UINT32_MAX UINT32_MAX fs \<longrightarrow> covers m fs"
        using assms(2) xs by simp
    qed (rule fits_max)+
    with xs show ?thesis by (simp add: find_best_flat)
  qed
  with lex show ?thesis by simp
qed

theorem C3_witness:
  "find_best_frame_size example_stream UINT32_MAX UINT32_MAX = Some \<lparr>width = 1920, height = 1080\<rparr>"
proof -
  have h1: "\<lparr>width = 1920, height = 1080\<rparr> \<in> set (advertised example_stream)"
    by (simp add: advertised_example)
  have h2: "\<forall>fs\<in>set (advertised example_stream). covers \<lparr>width = 1920, height = 1080\<rparr> fs"
    by (simp add: advertised_example covers_def)
  from C3_max_returns_covering_size [OF h1 h2] show ?thesis by simp
qed

text \<open>
  The claim as stated fails where no size covers the others: of 320x960 and 640x480,
  advertised in this order, the resolver returns 320x960, and 640x480 is the
  lexicographically greater.
\<close>

theorem C3_counterexample:
  "find_best_frame_size crossed_stream UINT32_MAX UINT32_MAX = Some \<lparr>width = 320, height = 960\<rparr> \<and>
   \<lparr>width = 640, height = 480\<rparr> \<in> set (advertised crossed_stream) \<and>
   \<not> lex_le \<lparr>width = 640, height = 480\<rparr> \<lparr>width = 320, height = 960\<rparr>"
  by (simp add: find_best_frame_size_def crossed_stream_def advertised_def lex_le_def
      replaces_best_def UINT32_MAX_def)

text \<open>
  C4 (resolver fallback), as amended. For a request \<open>(w, h)\<close> that no advertised pair
  matches exactly, with \<open>x\<close> the first advertised pair: when \<open>x\<close> fits under the
  ceiling and a fitting pair \<open>m\<close> is at least as wide and as high as every fitting pair,
  the resolver returns \<open>m\<close>, which is the lexicographically largest fitting pair; and when
  no advertised pair fits under the ceiling, the resolver returns \<open>x\<close>, the first pair in
  enumeration order.
\<close>

theorem C4_fallback:
  assumes "\<forall>fs\<in>set (advertised s). \<not> exact w h fs"
    and "advertised s = x # rest"
  shows "(fits w h x \<and> m \<in> set (advertised s) \<and> fits w h m \<and>
            (\<forall>fs\<in>set (advertised s). fits w h fs \<longrightarrow> covers m fs) \<longrightarrow>
          find_best_frame_size s w h = Some m \<and>
            (\<forall>fs\<in>set (advertised s). fits w h fs \<longrightarrow> lex_le fs m)) \<and>
         ((\<forall>fs\<in>set (advertised s). \<not> fits w h fs) \<longrightarrow>
          find_best_frame_size s w h = Some x)"
proof (intro conjI impI)
  assume a: "fits w h x \<and> m \<in> set (advertised s) \<and> fits w h m \<and>
            (\<forall>fs\<in>set (advertised s). fits w h fs \<longrightarrow> covers m fs)"
  have "scan_frame_sizes w h None (x # rest) = Inr (Some m)"
    using assms a by (intro scan_from_fitting_first) simp_all
  with assms(2) show "find_best_frame_size s w h = Some m"
    by (simp add: find_best_flat)
  from a show "\<forall>fs\<in>set (advertised s). fits w h fs \<longrightarrow> lex_le fs m"
    by (simp add: covers_lex_le)
next
  assume "\<forall>fs\<in>set (advertised s). \<not> fits w h fs"
  with assms(2) have "\<not> fits w h x" by simp
  with assms have "scan_frame_sizes w h None (x # rest) = Inr (Some x)"
    by (intro scan_from_unfitting_first) simp_all
  with assms(2) show "find_best_frame_size s w h = Some x"
    by (simp add: find_best_flat)
qed

theorem C4_witness:
  "find_best_frame_size example_stream 1000 1000 = Some \<lparr>width = 640, height = 480\<rparr> \<and>
   find_best_frame_size example_stream 100 100 = Some \<lparr>width = 640, height = 480\<rparr>"
proof -
  let ?x = "\<lparr>width = 640, height = 480\<rparr>"
  let ?rest = "[\<lparr>width = 1280, height = 720\<rparr>, \<lparr>width = 1920, height = 1080\<rparr>]"
  have adv: "advertised example_stream = ?x # ?rest"
    by (simp add: advertised_example)
  have n1: "\<forall>fs\<in>set (advertised example_stream). \<not> exact 1000 1000 fs"
    by (simp add: advertised_example exact_def)
  have n2: "\<forall>fs\<in>set (advertised example_stream). \<not> exact 100 100 fs"
    by (simp add: advertised_example exact_def)
  have first: "fits 1000 1000 ?x \<and> ?x \<in> set (advertised example_stream) \<and> fits 1000 1000 ?x \<and>
      (\<forall>fs\<in>set (advertised example_stream). fits 1000 1000 fs \<longrightarrow> covers ?x fs)"
    by (simp add: advertised_example fits_def covers_def)
  have none: "\<forall>fs\<in>set (advertised example_stream). \<not> fits 100 100 fs"
    by (simp add: advertised_example fits_def)
  from C4_fallback [OF n1 adv, of ?x] first
  have a: "find_best_frame_size example_stream 1000 1000 = Some ?x" by blast
  from C4_fallback [OF n2 adv, of ?x] none
  have b: "find_best_frame_size example_stream 100 100 = Some ?x" by blast
  from a b show ?thesis by simp
qed

text \<open>
  The claim as stated fails in both halves. With no pair under the ceiling (100, 100) the
  resolver returns the first pair examined, 640x480, and the last one is 1920x1080. With
  1920x1080 advertised before 640x480 and the ceiling (1000, 1000), it returns 1920x1080,
  which is not under the ceiling, while 640x480 is. With 320x960 advertised before 640x480,
  both under the ceiling (1000, 1000), it returns 320x960, and 640x480 is the
  lexicographically larger.
\<close>

theorem C4_counterexample:
  "find_best_frame_size example_stream 100 100 = Some \<lparr>width = 640, height = 480\<rparr> \<and>
   last (advertised example_stream) = \<lparr>width = 1920, height = 1080\<rparr> \<and>
   find_best_frame_size descending_stream 1000 1000 = Some \<lparr>width = 1920, height = 1080\<rparr> \<and>
   \<lparr>width = 640, height = 480\<rparr> \<in> set (advertised descending_stream) \<and>
   fits 1000 1000 \<lparr>width = 640, height = 480\<rparr> \<and>
   \<not> fits 1000 1000 \<lparr>width = 1920, height = 1080\<rparr> \<and>
   find_best_frame_size crossed_stream 1000 1000 = Some \<lparr>width = 320, height = 960\<rparr> \<and>
   \<lparr>width = 640, height = 480\<rparr> \<in> set (advertised crossed_stream) \<and>
   \<not> lex_le \<lparr>width = 640, height = 480\<rparr> \<lparr>width = 320, height = 960\<rparr>"
  by (simp add: find_best_frame_size_def example_stream_def descending_stream_def
      crossed_stream_def advertised_def fits_def replaces_best_def lex_le_def)

section \<open>The component registry\<close>

lemma add_scan_free:
  "i < MAV_COMP_ID_CAMERA6 + 1 \<Longrightarrow> find_map m i = None \<Longrightarrow>
   add_scan m camComp i = (i, insert_map m (i, camComp))"
  by (subst add_scan.simps) simp

lemma add_scan_bound:
  "i < MAV_COMP_ID_CAMERA6 + 1 \<Longrightarrow> find_map m i \<noteq> None \<Longrightarrow>
   add_scan m camComp i = add_scan m camComp (i + 1)"
  by (subst add_scan.simps) auto

lemma add_scan_end:
  "\<not> i < MAV_COMP_ID_CAMERA6 + 1 \<Longrightarrow> add_scan m camComp i = (i, m)"
  by (subst add_scan.simps) simp

text \<open>The scan stops at the first free identifier at or after its start.\<close>

lemma add_scan_first_free:
  "lo \<le> i \<Longrightarrow> i \<le> MAV_COMP_ID_CAMERA6 \<Longrightarrow> find_map m i = None \<Longrightarrow>
   \<forall>j. lo \<le> j \<and> j < i \<longrightarrow> find_map m j \<noteq> None \<Longrightarrow>
   add_scan m camComp lo = (i, insert_map m (i, camComp))"
proof (induction m camComp lo rule: add_scan.induct)
  case (1 m camComp lo)
  show ?case
  proof (cases "lo = i")
    case True
    with "1.prems" show ?thesis by (simp add: add_scan_free)
  next
    case False
    with "1.prems" have lt: "lo < i" and b: "find_map m lo \<noteq> None" by auto
    from lt "1.prems"(2) have c: "lo < MAV_COMP_ID_CAMERA6 + 1" by simp
    have "add_scan m camComp (lo + 1) = (i, insert_map m (i, camComp))"
      using "1.IH" [OF c b] lt "1.prems" by auto
    with c b show ?thesis by (simp add: add_scan_bound)
  qed
qed

text \<open>With no free identifier left it runs to the end and changes nothing.\<close>

lemma add_scan_full:
  "lo \<le> MAV_COMP_ID_CAMERA6 + 1 \<Longrightarrow>
   \<forall>j. lo \<le> j \<and> j \<le> MAV_COMP_ID_CAMERA6 \<longrightarrow> find_map m j \<noteq> None \<Longrightarrow>
   add_scan m camComp lo = (MAV_COMP_ID_CAMERA6 + 1, m)"
proof (induction m camComp lo rule: add_scan.induct)
  case (1 m camComp lo)
  show ?case
  proof (cases "lo < MAV_COMP_ID_CAMERA6 + 1")
    case True
    with "1.prems" have b: "find_map m lo \<noteq> None" by simp
    have "add_scan m camComp (lo + 1) = (MAV_COMP_ID_CAMERA6 + 1, m)"
      using "1.IH" [OF True b] True "1.prems" by auto
    with True b show ?thesis by (simp add: add_scan_bound)
  next
    case False
    with "1.prems"(1) have "lo = MAV_COMP_ID_CAMERA6 + 1" by simp
    with False show ?thesis by (simp add: add_scan_end)
  qed
qed

text \<open>Erasing frees the key of the first entry that holds the pointer, and no other.\<close>

lemma erase_first_find:
  "distinct (map fst m) \<Longrightarrow> map fst (filter (\<lambda>it. snd it = c) m) = k0 # ks \<Longrightarrow>
   map_of (erase_first c m) k = (if k = k0 then None else map_of m k)"
proof (induction m)
  case Nil
  then show ?case by simp
next
  case (Cons it rest)
  show ?case
  proof (cases "snd it = c")
    case True
    with Cons.prems have k0: "k0 = fst it" by simp
    from Cons.prems(1) have "fst it \<notin> fst ` set rest" by simp
    then have "map_of rest (fst it) = None" by (simp add: map_of_eq_None_iff)
    with True k0 show ?thesis by (cases it) auto
  next
    case False
    with Cons.prems have f: "map fst (filter (\<lambda>it. snd it = c) rest) = k0 # ks" by simp
    then have "k0 \<in> set (map fst (filter (\<lambda>it. snd it = c) rest))" by simp
    then have "k0 \<in> fst ` set rest" by auto
    with Cons.prems(1) have ne: "fst it \<noteq> k0" by auto
    from Cons.prems(1) have "distinct (map fst rest)" by simp
    from Cons.IH [OF this f] False ne show ?thesis by (cases it) auto
  qed
qed

lemma example_camera_server_eq:
  "example_camera_server = example_server\<lparr>compIdToObj := [(100, 7)]\<rparr>"
  by (simp add: example_camera_server_def addCameraComponent_def add_scan_free
      example_server_def find_map_def insert_map_def MAV_COMP_ID_CAMERA_def
      MAV_COMP_ID_CAMERA6_def)

lemma example_camera_bound:
  "getCameraComponent example_camera_server 100 = 7"
  unfolding example_camera_server_eq
  by (simp add: getCameraComponent_def find_map_def MAV_COMP_ID_CAMERA_def MAV_COMP_ID_CAMERA6_def)

lemma example_camera_system_id: "system_id example_camera_server = 1"
  unfolding example_camera_server_eq by (simp add: example_server_def)

lemma example_store:
  "paramValue (objects example_camera_server p) = [(''brightness'', ''64''), (''camera-mode'', ''1'')]"
  unfolding example_camera_server_eq
  by (simp add: example_server_def setParameter_def set_str_map_def insert_map_def find_map_def
      new_CameraParameters_def initParamIdType_def CAMERA_MODE_def BRIGHTNESS_def)

text \<open>
  Six adds into an empty registry take the six identifiers in ascending order, and a seventh
  finds no slot.
\<close>

lemma six_successive_adds:
  assumes "compIdToObj st = []"
  shows "addCameraComponent st d1 = (100, st\<lparr>compIdToObj := [(100, d1)]\<rparr>)"
    and "addCameraComponent (st\<lparr>compIdToObj := [(100, d1)]\<rparr>) d2
      = (101, st\<lparr>compIdToObj := [(100, d1), (101, d2)]\<rparr>)"
    and "addCameraComponent (st\<lparr>compIdToObj := [(100, d1), (101, d2)]\<rparr>) d3
      = (102, st\<lparr>compIdToObj := [(100, d1), (101, d2), (102, d3)]\<rparr>)"
    and "addCameraComponent (st\<lparr>compIdToObj := [(100, d1), (101, d2), (102, d3)]\<rparr>) d4
      = (103, st\<lparr>compIdToObj := [(100, d1), (101, d2), (102, d3), (103, d4)]\<rparr>)"
    and "addCameraComponent (st\<lparr>compIdToObj := [(100, d1), (101, d2), (102, d3), (103, d4)]\<rparr>) d5
      = (104, st\<lparr>compIdToObj := [(100, d1), (101, d2), (102, d3), (103, d4), (104, d5)]\<rparr>)"
    and "addCameraComponent
           (st\<lparr>compIdToObj := [(100, d1), (101, d2), (102, d3), (103, d4), (104, d5)]\<rparr>) d6
      = (105, st\<lparr>compIdToObj :=
                  [(100, d1), (101, d2), (102, d3), (103, d4), (104, d5), (105, d6)]\<rparr>)"
    and "addCameraComponent
           (st\<lparr>compIdToObj :=
                [(100, d1), (101, d2), (102, d3), (103, d4), (104, d5), (105, d6)]\<rparr>) d7
      = (106, st\<lparr>compIdToObj :=
                  [(100, d1), (101, d2), (102, d3), (103, d4), (104, d5), (105, d6)]\<rparr>)"
  using assms
  by (simp_all add: addCameraComponent_def add_scan_free add_scan_bound add_scan_end
      find_map_def insert_map_def MAV_COMP_ID_CAMERA_def MAV_COMP_ID_CAMERA6_def)

text \<open>
  C6 (component ID assignment). Three parts, for every registry and pointers:
  \<^item> when \<open>i\<close>, from \<^verbatim>\<open>MAV_COMP_ID_CAMERA\<close> to \<^verbatim>\<open>MAV_COMP_ID_CAMERA6\<close>, is unbound and
    every identifier of the range below it is bound, \<^verbatim>\<open>addCameraComponent\<close> returns
    \<open>i\<close> and binds the component there, changing nothing else;
  \<^item> when all six identifiers are bound, it returns \<^verbatim>\<open>MAV_COMP_ID_CAMERA6 + 1\<close>, which
    is no camera identifier, and binds nothing;
  \<^item> after \<^verbatim>\<open>removeCameraComponent\<close> of the component bound at
    \<^verbatim>\<open>MAV_COMP_ID_CAMERA3\<close> (a non-null pointer whose first slot, in ascending order,
    is that one; the two slots below it are bound), the next \<^verbatim>\<open>addCameraComponent\<close>
    returns \<^verbatim>\<open>MAV_COMP_ID_CAMERA3\<close>.
  The registry is a \<^verbatim>\<open>std::map\<close>: its keys are in ascending order (\<open>std_map_ok\<close>).
\<close>

theorem C6_component_id_assignment:
  "(MAV_COMP_ID_CAMERA \<le> i \<and> i \<le> MAV_COMP_ID_CAMERA6 \<and> find_map (compIdToObj st) i = None \<and>
      (\<forall>j. MAV_COMP_ID_CAMERA \<le> j \<and> j < i \<longrightarrow> find_map (compIdToObj st) j \<noteq> None) \<longrightarrow>
    addCameraComponent st camComp = (i, st\<lparr>compIdToObj := insert_map (compIdToObj st) (i, camComp)\<rparr>) \<and>
    find_map (compIdToObj (snd (addCameraComponent st camComp))) i = Some camComp) \<and>
   ((\<forall>j. MAV_COMP_ID_CAMERA \<le> j \<and> j \<le> MAV_COMP_ID_CAMERA6 \<longrightarrow> find_map (compIdToObj st) j \<noteq> None) \<longrightarrow>
    addCameraComponent st camComp = (MAV_COMP_ID_CAMERA6 + 1, st)) \<and>
   (std_map_ok (compIdToObj st) \<and> old \<noteq> nullptr \<and>
      find_map (compIdToObj st) MAV_COMP_ID_CAMERA \<noteq> None \<and>
      find_map (compIdToObj st) MAV_COMP_ID_CAMERA2 \<noteq> None \<and>
      map fst (filter (\<lambda>it. snd it = old) (compIdToObj st)) = MAV_COMP_ID_CAMERA3 # ks \<longrightarrow>
    fst (addCameraComponent (removeCameraComponent st old) camComp) = MAV_COMP_ID_CAMERA3)"
proof (intro conjI impI)
  assume a: "MAV_COMP_ID_CAMERA \<le> i \<and> i \<le> MAV_COMP_ID_CAMERA6 \<and> find_map (compIdToObj st) i = None \<and>
      (\<forall>j. MAV_COMP_ID_CAMERA \<le> j \<and> j < i \<longrightarrow> find_map (compIdToObj st) j \<noteq> None)"
  then have s: "add_scan (compIdToObj st) camComp MAV_COMP_ID_CAMERA
      = (i, insert_map (compIdToObj st) (i, camComp))"
    by (intro add_scan_first_free) simp_all
  then show "addCameraComponent st camComp
      = (i, st\<lparr>compIdToObj := insert_map (compIdToObj st) (i, camComp)\<rparr>)"
    by (simp add: addCameraComponent_def)
  from s a show "find_map (compIdToObj (snd (addCameraComponent st camComp))) i = Some camComp"
    by (simp add: addCameraComponent_def find_insert_absent)
next
  assume "\<forall>j. MAV_COMP_ID_CAMERA \<le> j \<and> j \<le> MAV_COMP_ID_CAMERA6 \<longrightarrow> find_map (compIdToObj st) j \<noteq> None"
  then have "add_scan (compIdToObj st) camComp MAV_COMP_ID_CAMERA = (MAV_COMP_ID_CAMERA6 + 1, compIdToObj st)"
    by (intro add_scan_full) (simp_all add: MAV_COMP_ID_CAMERA_def MAV_COMP_ID_CAMERA6_def)
  then show "addCameraComponent st camComp = (MAV_COMP_ID_CAMERA6 + 1, st)"
    by (simp add: addCameraComponent_def)
next
  assume a: "std_map_ok (compIdToObj st) \<and> old \<noteq> nullptr \<and>
      find_map (compIdToObj st) MAV_COMP_ID_CAMERA \<noteq> None \<and>
      find_map (compIdToObj st) MAV_COMP_ID_CAMERA2 \<noteq> None \<and>
      map fst (filter (\<lambda>it. snd it = old) (compIdToObj st)) = MAV_COMP_ID_CAMERA3 # ks"
  define m where "m = erase_first old (compIdToObj st)"
  from a have d: "distinct (map fst (compIdToObj st))" by (simp add: std_map_ok_distinct)
  have f: "find_map m k = (if k = MAV_COMP_ID_CAMERA3 then None else find_map (compIdToObj st) k)" for k
    using erase_first_find [OF d, of old MAV_COMP_ID_CAMERA3 ks k] a
    by (simp add: m_def find_map_def)
  have "\<forall>j. MAV_COMP_ID_CAMERA \<le> j \<and> j < MAV_COMP_ID_CAMERA3 \<longrightarrow> find_map m j \<noteq> None"
  proof (intro allI impI)
    fix j assume "MAV_COMP_ID_CAMERA \<le> j \<and> j < MAV_COMP_ID_CAMERA3"
    then have "j = MAV_COMP_ID_CAMERA \<or> j = MAV_COMP_ID_CAMERA2"
      by (auto simp: MAV_COMP_ID_CAMERA_def MAV_COMP_ID_CAMERA2_def MAV_COMP_ID_CAMERA3_def)
    with a f show "find_map m j \<noteq> None"
      by (auto simp: MAV_COMP_ID_CAMERA_def MAV_COMP_ID_CAMERA2_def MAV_COMP_ID_CAMERA3_def)
  qed
  then have "add_scan m camComp MAV_COMP_ID_CAMERA
      = (MAV_COMP_ID_CAMERA3, insert_map m (MAV_COMP_ID_CAMERA3, camComp))"
    using f by (intro add_scan_first_free)
      (simp_all add: MAV_COMP_ID_CAMERA_def MAV_COMP_ID_CAMERA3_def MAV_COMP_ID_CAMERA6_def)
  with a show "fst (addCameraComponent (removeCameraComponent st old) camComp) = MAV_COMP_ID_CAMERA3"
    by (simp add: addCameraComponent_def removeCameraComponent_def m_def)
qed

theorem C6_witness:
  "addCameraComponent (example_server\<lparr>compIdToObj := [(100, 11), (101, 12)]\<rparr>) 13
     = (102, example_server\<lparr>compIdToObj := [(100, 11), (101, 12), (102, 13)]\<rparr>) \<and>
   addCameraComponent example_full_server 17 = (106, example_full_server) \<and>
   fst (addCameraComponent (removeCameraComponent example_full_server 13) 17) = 102"
proof -
  let ?two = "example_server\<lparr>compIdToObj := [(100, 11), (101, 12)]\<rparr>"
  have h1: "MAV_COMP_ID_CAMERA \<le> 102 \<and> 102 \<le> MAV_COMP_ID_CAMERA6 \<and>
      find_map (compIdToObj ?two) 102 = None \<and>
      (\<forall>j. MAV_COMP_ID_CAMERA \<le> j \<and> j < 102 \<longrightarrow> find_map (compIdToObj ?two) j \<noteq> None)"
    by (auto simp: find_map_def MAV_COMP_ID_CAMERA_def MAV_COMP_ID_CAMERA6_def)
  have h2: "\<forall>j. MAV_COMP_ID_CAMERA \<le> j \<and> j \<le> MAV_COMP_ID_CAMERA6 \<longrightarrow>
      find_map (compIdToObj example_full_server) j \<noteq> None"
    by (auto simp: find_map_def example_full_server_def MAV_COMP_ID_CAMERA_def
        MAV_COMP_ID_CAMERA6_def)
  have h3: "std_map_ok (compIdToObj example_full_server) \<and> 13 \<noteq> nullptr \<and>
      find_map (compIdToObj example_full_server) MAV_COMP_ID_CAMERA \<noteq> None \<and>
      find_map (compIdToObj example_full_server) MAV_COMP_ID_CAMERA2 \<noteq> None \<and>
      map fst (filter (\<lambda>it. snd it = 13) (compIdToObj example_full_server)) = MAV_COMP_ID_CAMERA3 # []"
    by (simp add: find_map_def example_full_server_def std_map_ok_def nullptr_def
        MAV_COMP_ID_CAMERA_def MAV_COMP_ID_CAMERA2_def MAV_COMP_ID_CAMERA3_def)
  have t1: "addCameraComponent ?two 13
     = (102, ?two\<lparr>compIdToObj := insert_map (compIdToObj ?two) (102, 13)\<rparr>)"
    using C6_component_id_assignment [of 102 ?two 13] h1 by blast
  have t2: "addCameraComponent example_full_server 17 = (MAV_COMP_ID_CAMERA6 + 1, example_full_server)"
    using C6_component_id_assignment [of 100 example_full_server 17 13 "[]"] h2 by blast
  have t3: "fst (addCameraComponent (removeCameraComponent example_full_server 13) 17)
      = MAV_COMP_ID_CAMERA3"
    using C6_component_id_assignment [of 100 example_full_server 17 13 "[]"] h3 by blast
  from t1 t2 t3 show ?thesis
    by (simp add: insert_map_def find_map_def MAV_COMP_ID_CAMERA6_def MAV_COMP_ID_CAMERA3_def)
qed

section \<open>The information requests\<close>

lemma send_ack_outbox:
  "outbox (send_ack env addr cmd compId success st) =
     outbox st @ [(addr, \<lparr>sysid = system_id st, compid = compId,
        payload = COMMAND_ACK cmd (if success then MAV_RESULT_ACCEPTED else MAV_RESULT_FAILED) 255\<rparr>)]"
  by (simp add: send_ack_def send_mavlink_message_def)

lemma information_acks:
  "command_acks (sent_by st (handle_request_camera_information env addr cmd st)) =
     (if param1 cmd \<noteq> Finite 1 then [(command cmd, MAV_RESULT_ACCEPTED)]
      else if getCameraComponent st (uint (target_component cmd)) = nullptr
        then [(command cmd, MAV_RESULT_FAILED)]
      else if udp_write env (length (outbox st)) then [(command cmd, MAV_RESULT_ACCEPTED)]
      else [])"
  by (simp add: handle_request_camera_information_def Let_def sent_by_def send_ack_outbox
      send_mavlink_message_def)

lemma settings_acks:
  "command_acks (sent_by st (handle_request_camera_settings env addr cmd st)) =
     (if param1 cmd \<noteq> Finite 1 then [(command cmd, MAV_RESULT_ACCEPTED)]
      else if getCameraComponent st (uint (target_component cmd)) = nullptr
        then [(command cmd, MAV_RESULT_FAILED)]
      else if udp_write env (length (outbox st)) then [(command cmd, MAV_RESULT_ACCEPTED)]
      else [])"
  by (simp add: handle_request_camera_settings_def Let_def sent_by_def send_ack_outbox
      send_mavlink_message_def)

lemma storage_acks:
  "command_acks (sent_by st (handle_request_storage_information env addr cmd st)) =
     (if param1 cmd \<noteq> Finite 1 then [(command cmd, MAV_RESULT_ACCEPTED)]
      else if getCameraComponent st (uint (target_component cmd)) = nullptr
        then [(command cmd, MAV_RESULT_FAILED)]
      else if udp_write env (length (outbox st)) then [(command cmd, MAV_RESULT_ACCEPTED)]
      else [])"
  by (simp add: handle_request_storage_information_def Let_def sent_by_def send_ack_outbox
      send_mavlink_message_def)

text \<open>
  C2 (ack invariant), as amended. For every \<^verbatim>\<open>COMMAND_LONG\<close> that passes the target
  filter and asks for camera information, camera settings or storage information, the
  acknowledgements the server hands to the socket are:
  \<^item> when \<open>param1\<close> is not 1: exactly one, \<^verbatim>\<open>MAV_RESULT_ACCEPTED\<close>, whether or not a
    component is bound at the target;
  \<^item> when \<open>param1\<close> is 1 and no component is bound at the target: exactly one,
    \<^verbatim>\<open>MAV_RESULT_FAILED\<close>;
  \<^item> when \<open>param1\<close> is 1, a component is bound and the write of the information message
    succeeds: exactly one, \<^verbatim>\<open>MAV_RESULT_ACCEPTED\<close>;
  \<^item> when that write fails: none.
\<close>

theorem C2_acks_of_requests:
  assumes "uint (target_system cmd) = system_id st"
    and "MAV_COMP_ID_CAMERA \<le> uint (target_component cmd)"
    and "uint (target_component cmd) \<le> MAV_COMP_ID_CAMERA6"
    and "command cmd = MAV_CMD_REQUEST_CAMERA_INFORMATION
         \<or> command cmd = MAV_CMD_REQUEST_CAMERA_SETTINGS
         \<or> command cmd = MAV_CMD_REQUEST_STORAGE_INFORMATION"
  shows "command_acks (sent_by st (handle_mavlink_message env addr (COMMAND_LONG cmd) st)) =
     (if param1 cmd \<noteq> Finite 1 then [(command cmd, MAV_RESULT_ACCEPTED)]
      else if getCameraComponent st (uint (target_component cmd)) = nullptr
        then [(command cmd, MAV_RESULT_FAILED)]
      else if udp_write env (length (outbox st)) then [(command cmd, MAV_RESULT_ACCEPTED)]
      else [])"
proof -
  have pass: "\<not> (uint (target_system cmd) \<noteq> system_id st
             \<or> uint (target_component cmd) < MAV_COMP_ID_CAMERA
             \<or> uint (target_component cmd) > MAV_COMP_ID_CAMERA6)"
    using assms(1-3) by simp
  from assms(4) show ?thesis
  proof (elim disjE)
    assume c: "command cmd = MAV_CMD_REQUEST_CAMERA_INFORMATION"
    then have "handle_mavlink_message env addr (COMMAND_LONG cmd) st
        = handle_request_camera_information env addr cmd st"
      using pass by (simp add: handle_mavlink_message_def)
    then show ?thesis by (simp only: information_acks)
  next
    assume c: "command cmd = MAV_CMD_REQUEST_CAMERA_SETTINGS"
    then have "handle_mavlink_message env addr (COMMAND_LONG cmd) st
        = handle_request_camera_settings env addr cmd st"
      using pass by (simp add: handle_mavlink_message_def)
    then show ?thesis by (simp only: settings_acks)
  next
    assume c: "command cmd = MAV_CMD_REQUEST_STORAGE_INFORMATION"
    then have "handle_mavlink_message env addr (COMMAND_LONG cmd) st
        = handle_request_storage_information env addr cmd st"
      using pass by (simp add: handle_mavlink_message_def)
    then show ?thesis by (simp only: storage_acks)
  qed
qed

theorem C2_witness:
  "command_acks (sent_by example_camera_server
      (handle_mavlink_message example_env example_peer
         (COMMAND_LONG (example_request\<lparr>param1 := Finite 1\<rparr>)) example_camera_server))
     = [(MAV_CMD_REQUEST_CAMERA_INFORMATION, MAV_RESULT_ACCEPTED)]"
proof -
  let ?cmd = "example_request\<lparr>param1 := Finite 1\<rparr>"
  have h1: "uint (target_system ?cmd) = system_id example_camera_server"
    by (simp add: example_camera_system_id example_request_def)
  have h2: "MAV_COMP_ID_CAMERA \<le> uint (target_component ?cmd)"
    by (simp add: example_request_def MAV_COMP_ID_CAMERA_def)
  have h3: "uint (target_component ?cmd) \<le> MAV_COMP_ID_CAMERA6"
    by (simp add: example_request_def MAV_COMP_ID_CAMERA6_def)
  have h4: "command ?cmd = MAV_CMD_REQUEST_CAMERA_INFORMATION
         \<or> command ?cmd = MAV_CMD_REQUEST_CAMERA_SETTINGS
         \<or> command ?cmd = MAV_CMD_REQUEST_STORAGE_INFORMATION"
    by (simp add: example_request_def)
  from C2_acks_of_requests [OF h1 h2 h3 h4, of example_env example_peer] example_camera_bound
  show ?thesis
    by (simp add: example_request_def example_env_def nullptr_def)
qed

text \<open>
  The claim as stated fails: with no component registered, a camera-information request
  with \<open>param1 = 0\<close> addressed to component 100 is acknowledged with
  \<^verbatim>\<open>MAV_RESULT_ACCEPTED\<close>.
\<close>

theorem C2_counterexample:
  "getCameraComponent example_server (uint (target_component example_request)) = nullptr \<and>
   command_acks (sent_by example_server
      (handle_mavlink_message example_env example_peer (COMMAND_LONG example_request) example_server))
     = [(MAV_CMD_REQUEST_CAMERA_INFORMATION, MAV_RESULT_ACCEPTED)]"
  by (simp add: example_server_def example_request_def getCameraComponent_def find_map_def
      handle_mavlink_message_def handle_request_camera_information_def send_ack_def
      send_mavlink_message_def sent_by_def MAV_COMP_ID_CAMERA_def MAV_COMP_ID_CAMERA6_def nullptr_def)

section \<open>The dispatcher\<close>

text \<open>
  C9 (target filter). A \<^verbatim>\<open>COMMAND_LONG\<close> whose target system is not the server's
  system id, or whose target component is below \<^verbatim>\<open>MAV_COMP_ID_CAMERA\<close> or above
  \<^verbatim>\<open>MAV_COMP_ID_CAMERA6\<close>, leaves the server as it was: nothing is handed to the
  socket.
\<close>

theorem C9_target_filter:
  "uint (target_system cmd) \<noteq> system_id st
     \<or> uint (target_component cmd) < MAV_COMP_ID_CAMERA
     \<or> uint (target_component cmd) > MAV_COMP_ID_CAMERA6 \<Longrightarrow>
   handle_mavlink_message env addr (COMMAND_LONG cmd) st = st \<and>
   sent_by st (handle_mavlink_message env addr (COMMAND_LONG cmd) st) = []"
  by (simp add: handle_mavlink_message_def sent_by_def)

theorem C9_witness:
  "handle_mavlink_message example_env example_peer
     (COMMAND_LONG (example_request\<lparr>target_system := 2\<rparr>)) example_camera_server
     = example_camera_server \<and>
   handle_mavlink_message example_env example_peer
     (COMMAND_LONG (example_request\<lparr>target_component := 106\<rparr>)) example_camera_server
     = example_camera_server"
proof -
  let ?a = "example_request\<lparr>target_system := 2\<rparr>"
  let ?b = "example_request\<lparr>target_component := 106\<rparr>"
  have h1: "uint (target_system ?a) \<noteq> system_id example_camera_server
     \<or> uint (target_component ?a) < MAV_COMP_ID_CAMERA
     \<or> uint (target_component ?a) > MAV_COMP_ID_CAMERA6"
    by (simp add: example_camera_system_id example_request_def)
  have h2: "uint (target_system ?b) \<noteq> system_id example_camera_server
     \<or> uint (target_component ?b) < MAV_COMP_ID_CAMERA
     \<or> uint (target_component ?b) > MAV_COMP_ID_CAMERA6"
    by (simp add: example_camera_system_id example_request_def MAV_COMP_ID_CAMERA6_def)
  from C9_target_filter [OF h1, of example_env example_peer]
       C9_target_filter [OF h2, of example_env example_peer]
  show ?thesis by simp
qed

text \<open>
  C7 (unknown component), as amended. A \<^verbatim>\<open>PARAM_EXT_SET\<close> or a
  \<^verbatim>\<open>PARAM_EXT_REQUEST_READ\<close> whose target component has no camera component bound
  leaves the server as it was: no \<^verbatim>\<open>PARAM_EXT_ACK\<close>, and nothing else, is sent.
\<close>

theorem C7_unknown_component_is_silent:
  "(getCameraComponent st (uint (target_component param_set)) = nullptr \<longrightarrow>
      handle_mavlink_message env addr (PARAM_EXT_SET param_set) st = st) \<and>
   (getCameraComponent st (uint (target_component param_ext_read)) = nullptr \<longrightarrow>
      handle_mavlink_message env addr (PARAM_EXT_REQUEST_READ param_ext_read) st = st)"
  by (simp add: handle_mavlink_message_def handle_param_ext_set_def
      handle_param_ext_request_read_def)

theorem C7_witness:
  "handle_mavlink_message example_env example_peer (PARAM_EXT_SET example_set) example_server
     = example_server \<and>
   handle_mavlink_message example_env example_peer (PARAM_EXT_REQUEST_READ example_read) example_server
     = example_server"
proof -
  have h1: "getCameraComponent example_server (uint (target_component example_set)) = nullptr"
    by (simp add: example_server_def example_set_def getCameraComponent_def find_map_def)
  have h2: "getCameraComponent example_server (uint (target_component example_read)) = nullptr"
    by (simp add: example_server_def example_read_def getCameraComponent_def find_map_def)
  from C7_unknown_component_is_silent
    [of example_server example_set example_env example_peer example_read] h1 h2
  show ?thesis by simp
qed

text \<open>
  The claim as stated fails: with no component registered, the server's outbox is empty
  after a \<^verbatim>\<open>PARAM_EXT_SET\<close> and after a \<^verbatim>\<open>PARAM_EXT_REQUEST_READ\<close> addressed to
  component 100.
\<close>

theorem C7_counterexample:
  "getCameraComponent example_server (uint (target_component example_set)) = nullptr \<and>
   outbox (handle_mavlink_message example_env example_peer (PARAM_EXT_SET example_set) example_server) = [] \<and>
   getCameraComponent example_server (uint (target_component example_read)) = nullptr \<and>
   outbox (handle_mavlink_message example_env example_peer (PARAM_EXT_REQUEST_READ example_read)
      example_server) = []"
  by (simp add: example_server_def example_set_def example_read_def getCameraComponent_def
      find_map_def handle_mavlink_message_def handle_param_ext_set_def
      handle_param_ext_request_read_def MAV_COMP_ID_CAMERA_def MAV_COMP_ID_CAMERA6_def)



section \<open>Listing the parameters\<close>

lemma c_str_strncpy: "c_str (strncpy n s) = take n (c_str s)"
proof -
  have "\<forall>c\<in>set (take n (c_str s)). c \<noteq> NUL"
    by (auto simp: c_str_def dest!: in_set_takeD set_takeWhileD)
  then show ?thesis
    by (simp add: strncpy_def c_str_def [of "_ @ _"] takeWhile_append2 takeWhile_replicate)
qed

lemma param_list_loop_outbox:
  "\<exists>new. outbox (param_list_loop env addr compId dev cnt idx xs st) = outbox st @ new \<and>
     param_ext_value_ids (map (\<lambda>entry. payload (snd entry)) new)
       = map (\<lambda>x. strncpy 16 (fst x)) xs"
proof (induction xs arbitrary: idx st)
  case Nil
  then show ?case by simp
next
  case (Cons x rest)
  define st1 where "st1 = snd (send_mavlink_message env (Some addr)
          \<lparr>sysid = system_id st, compid = compId,
           payload = PARAM_EXT_VALUE cnt (word_of_int idx) (strncpy 16 (fst x))
             (Some (strncpy 128 (snd x)))
             (word_of_int (getParamType env dev (strncpy 16 (fst x))))\<rparr> st)"
  from Cons.IH [of "idx + 1" st1] obtain new where
    n: "outbox (param_list_loop env addr compId dev cnt (idx + 1) rest st1) = outbox st1 @ new"
      "param_ext_value_ids (map (\<lambda>entry. payload (snd entry)) new)
         = map (\<lambda>x. strncpy 16 (fst x)) rest"
    by blast
  have o1: "outbox st1 = outbox st @ [(addr, \<lparr>sysid = system_id st, compid = compId,
           payload = PARAM_EXT_VALUE cnt (word_of_int idx) (strncpy 16 (fst x))
             (Some (strncpy 128 (snd x)))
             (word_of_int (getParamType env dev (strncpy 16 (fst x))))\<rparr>)]"
    by (simp add: st1_def send_mavlink_message_def)
  show ?case
    by (rule exI [of _ "(addr, \<lparr>sysid = system_id st, compid = compId,
           payload = PARAM_EXT_VALUE cnt (word_of_int idx) (strncpy 16 (fst x))
             (Some (strncpy 128 (snd x)))
             (word_of_int (getParamType env dev (strncpy 16 (fst x))))\<rparr>) # new"])
       (use n o1 in \<open>simp add: st1_def [symmetric]\<close>)
qed

lemma param_list_loop_ids:
  "param_ext_value_ids (sent_by st (param_list_loop env addr compId dev cnt idx xs st))
     = map (\<lambda>x. strncpy 16 (fst x)) xs"
proof -
  from param_list_loop_outbox [of env addr compId dev cnt idx xs st] obtain new where
    "outbox (param_list_loop env addr compId dev cnt idx xs st) = outbox st @ new"
    "param_ext_value_ids (map (\<lambda>entry. payload (snd entry)) new)
       = map (\<lambda>x. strncpy 16 (fst x)) xs"
    by blast
  then show ?thesis by (simp add: sent_by_def)
qed

lemma request_list_ids:
  "getCameraComponent st (uint (target_component param_list)) \<noteq> nullptr \<Longrightarrow>
   param_ext_value_ids (sent_by st
       (handle_mavlink_message env addr (PARAM_EXT_REQUEST_LIST param_list) st))
     = map (\<lambda>x. strncpy 16 (fst x))
         (getParamList env (objects st (getCameraComponent st (uint (target_component param_list)))))"
  by (simp add: handle_mavlink_message_def handle_param_ext_request_list_def Let_def
      param_list_loop_ids)

text \<open>
  Reading the 16 bytes of \<^verbatim>\<open>param_id\<close> back as a C string cuts a name at its first
  NUL and at 16 bytes. Both cuts keep the byte-wise order of the names (NUL is the least
  byte), and change nothing in a name of at most 16 bytes without a NUL.
\<close>

lemma NUL_least: "\<not> c < NUL"
  by (simp add: NUL_def less_char_def)

lemma c_str_mono: "a \<le> b \<Longrightarrow> c_str a \<le> c_str b"
proof (induction a arbitrary: b)
  case Nil
  then show ?case by (simp add: c_str_def)
next
  case (Cons x xs)
  then obtain y ys where b: "b = y # ys" by (cases b) auto
  from Cons.prems b have le: "x < y \<or> x = y \<and> xs \<le> ys" by simp
  show ?case
  proof (cases "x = NUL")
    case True
    then show ?thesis by (simp add: c_str_def)
  next
    case False
    from le show ?thesis
    proof
      assume lt: "x < y"
      then have "y \<noteq> NUL" using NUL_least [of x] by auto
      with lt False b show ?thesis by (simp add: c_str_def)
    next
      assume eq: "x = y \<and> xs \<le> ys"
      with Cons.IH [of ys] have "c_str xs \<le> c_str ys" by simp
      with eq False b show ?thesis by (simp add: c_str_def)
    qed
  qed
qed

lemma take_mono_lex: "a \<le> b \<Longrightarrow> take n a \<le> take n (b::string)"
proof (induction n arbitrary: a b)
  case 0
  then show ?case by simp
next
  case (Suc n)
  show ?case
  proof (cases a)
    case Nil
    then show ?thesis by simp
  next
    case (Cons x xs)
    with Suc.prems obtain y ys where b: "b = y # ys" by (cases b) auto
    from Suc.prems Cons b have "x < y \<or> x = y \<and> xs \<le> ys" by simp
    with Suc.IH [of xs ys] Cons b show ?thesis by auto
  qed
qed

lemma param_id_mono: "a \<le> b \<Longrightarrow> c_str (strncpy n a) \<le> c_str (strncpy n b)"
  by (simp add: c_str_strncpy take_mono_lex c_str_mono)

lemma c_str_strncpy_short:
  "length k \<le> n \<Longrightarrow> NUL \<notin> set k \<Longrightarrow> c_str (strncpy n k) = k"
proof -
  assume a: "length k \<le> n" "NUL \<notin> set k"
  then have "c_str k = k" by (auto simp: c_str_def takeWhile_eq_all_conv)
  with a show ?thesis by (simp add: c_str_strncpy)
qed

lemma ascending_param_ids:
  "sorted_wrt (<) (map fst xs) \<Longrightarrow> sorted (map (\<lambda>x. c_str (strncpy n (fst x))) xs)"
proof (induction xs)
  case Nil
  then show ?case by simp
next
  case (Cons x xs)
  then have lt: "\<forall>y\<in>set xs. fst x < fst y" and rest: "sorted_wrt (<) (map fst xs)"
    by auto
  have "\<forall>y\<in>set xs. c_str (strncpy n (fst x)) \<le> c_str (strncpy n (fst y))"
  proof
    fix y assume "y \<in> set xs"
    with lt have "fst x \<le> fst y" by (simp add: less_imp_le)
    then show "c_str (strncpy n (fst x)) \<le> c_str (strncpy n (fst y))"
      by (rule param_id_mono)
  qed
  with Cons.IH [OF rest] show ?case by simp
qed

text \<open>The loop sends one message per entry, in the order of the iteration.\<close>

lemma param_list_loop_entries_outbox:
  "\<exists>new. outbox (param_list_loop env addr compId dev cnt idx xs st) = outbox st @ new \<and>
     param_ext_value_entries (map (\<lambda>entry. payload (snd entry)) new)
       = map (\<lambda>x. (strncpy 16 (fst x), Some (strncpy 128 (snd x)))) xs"
proof (induction xs arbitrary: idx st)
  case Nil
  then show ?case by simp
next
  case (Cons x rest)
  define st1 where "st1 = snd (send_mavlink_message env (Some addr)
          \<lparr>sysid = system_id st, compid = compId,
           payload = PARAM_EXT_VALUE cnt (word_of_int idx) (strncpy 16 (fst x))
             (Some (strncpy 128 (snd x)))
             (word_of_int (getParamType env dev (strncpy 16 (fst x))))\<rparr> st)"
  from Cons.IH [of "idx + 1" st1] obtain new where
    n: "outbox (param_list_loop env addr compId dev cnt (idx + 1) rest st1) = outbox st1 @ new"
      "param_ext_value_entries (map (\<lambda>entry. payload (snd entry)) new)
         = map (\<lambda>x. (strncpy 16 (fst x), Some (strncpy 128 (snd x)))) rest"
    by blast
  have o1: "outbox st1 = outbox st @ [(addr, \<lparr>sysid = system_id st, compid = compId,
           payload = PARAM_EXT_VALUE cnt (word_of_int idx) (strncpy 16 (fst x))
             (Some (strncpy 128 (snd x)))
             (word_of_int (getParamType env dev (strncpy 16 (fst x))))\<rparr>)]"
    by (simp add: st1_def send_mavlink_message_def)
  show ?case
    by (rule exI [of _ "(addr, \<lparr>sysid = system_id st, compid = compId,
           payload = PARAM_EXT_VALUE cnt (word_of_int idx) (strncpy 16 (fst x))
             (Some (strncpy 128 (snd x)))
             (word_of_int (getParamType env dev (strncpy 16 (fst x))))\<rparr>) # new"])
       (use n o1 in \<open>simp add: st1_def [symmetric]\<close>)
qed

lemma request_list_entries:
  "getCameraComponent st (uint (target_component param_list)) \<noteq> nullptr \<Longrightarrow>
   param_ext_value_entries (sent_by st
       (handle_mavlink_message env addr (PARAM_EXT_REQUEST_LIST param_list) st))
     = map (\<lambda>x. (strncpy 16 (fst x), Some (strncpy 128 (snd x))))
         (getParamList env (objects st (getCameraComponent st (uint (target_component param_list)))))"
proof -
  assume b: "getCameraComponent st (uint (target_component param_list)) \<noteq> nullptr"
  let ?dev = "objects st (getCameraComponent st (uint (target_component param_list)))"
  let ?xs = "getParamList env ?dev"
  from param_list_loop_entries_outbox
    [of env addr "uint (target_component param_list)" ?dev "of_nat (length ?xs)" 0 ?xs st]
  obtain new where
    "outbox (param_list_loop env addr (uint (target_component param_list)) ?dev
        (of_nat (length ?xs)) 0 ?xs st) = outbox st @ new"
    "param_ext_value_entries (map (\<lambda>entry. payload (snd entry)) new)
       = map (\<lambda>x. (strncpy 16 (fst x), Some (strncpy 128 (snd x)))) ?xs"
    by blast
  with b show ?thesis
    by (simp add: handle_mavlink_message_def handle_param_ext_request_list_def Let_def sent_by_def)
qed

lemma burst_in_name_order:
  assumes "getCameraComponent st (uint (target_component param_list)) \<noteq> nullptr"
    and "std_map_ok (getParamList env
           (objects st (getCameraComponent st (uint (target_component param_list)))))"
  shows "sorted (map (\<lambda>e. c_str (fst e)) (param_ext_value_entries (sent_by st
           (handle_mavlink_message env addr (PARAM_EXT_REQUEST_LIST param_list) st))))"
  using ascending_param_ids [of "getParamList env
           (objects st (getCameraComponent st (uint (target_component param_list))))" 16] assms(2)
  by (simp add: request_list_entries [OF assms(1)] std_map_ok_def comp_def)

lemma burst_names_exact:
  assumes "getCameraComponent st (uint (target_component param_list)) \<noteq> nullptr"
    and "\<forall>x\<in>set (getParamList env
           (objects st (getCameraComponent st (uint (target_component param_list))))).
           length (fst x) \<le> 16 \<and> NUL \<notin> set (fst x)"
  shows "map (\<lambda>e. c_str (fst e)) (param_ext_value_entries (sent_by st
           (handle_mavlink_message env addr (PARAM_EXT_REQUEST_LIST param_list) st)))
         = map fst (getParamList env
           (objects st (getCameraComponent st (uint (target_component param_list)))))"
  using assms(2)
  by (simp add: request_list_entries [OF assms(1)] comp_def c_str_strncpy_short)

text \<open>
  C8 (listing order), as amended. Both tables are \<^verbatim>\<open>std::map\<close>s, so they are listed in
  ascending byte-wise order of the parameter names, whatever the order of the inserts:
  \<^item> iterating the schema built by \<^verbatim>\<open>initParamIdType\<close> yields its 21 names in
    ascending order, \<open>backlight\<close> first;
  \<^item> the store of a new object is in key order and \<^verbatim>\<open>setParameter\<close> keeps it so;
  \<^item> the \<^verbatim>\<open>PARAM_EXT_VALUE\<close> messages that answer a \<^verbatim>\<open>PARAM_EXT_REQUEST_LIST\<close> for
    a bound component carry the entries of the component's parameter map one by one in
    the map's iteration order;
  \<^item> that map is a \<^verbatim>\<open>std::map\<close> (\<open>std_map_ok\<close>), so the burst carries each name with
    its value, and its names, read from \<^verbatim>\<open>param_id\<close>, are in ascending byte-wise
    order; when every name has at most 16 bytes and no NUL, the names of the burst are
    the names of the map, in strictly ascending order.
\<close>

theorem C8_listing_follows_key_order:
  "map fst (paramIdType (new_CameraParameters pm)) =
     [''backlight'', ''brightness'', ''camera-mode'', ''contrast'', ''exp-absolute'',
      ''exp-mode'', ''gain'', ''gamma'', ''hue'', ''image-format'', ''image-size'',
      ''pixel-format'', ''power-mode'', ''saturation'', ''scene-mode'', ''sharpness'',
      ''video-format'', ''video-size'', ''video-snapshot'', ''wb-mode'', ''wb-temp''] \<and>
   std_map_ok (paramIdType (new_CameraParameters pm)) \<and>
   std_map_ok (paramValue (new_CameraParameters pm)) \<and>
   (std_map_ok (paramValue cp) \<longrightarrow> std_map_ok (paramValue (snd (setParameter cp key val)))) \<and>
   (getCameraComponent st (uint (target_component param_list)) \<noteq> nullptr \<longrightarrow>
      param_ext_value_ids (sent_by st
         (handle_mavlink_message env addr (PARAM_EXT_REQUEST_LIST param_list) st))
        = map (\<lambda>x. strncpy 16 (fst x))
            (getParamList env (objects st (getCameraComponent st (uint (target_component param_list)))))) \<and>
   (getCameraComponent st (uint (target_component param_list)) \<noteq> nullptr \<and>
    std_map_ok (getParamList env
      (objects st (getCameraComponent st (uint (target_component param_list))))) \<longrightarrow>
      param_ext_value_entries (sent_by st
         (handle_mavlink_message env addr (PARAM_EXT_REQUEST_LIST param_list) st))
        = map (\<lambda>x. (strncpy 16 (fst x), Some (strncpy 128 (snd x))))
            (getParamList env (objects st (getCameraComponent st (uint (target_component param_list))))) \<and>
      sorted (map (\<lambda>e. c_str (fst e)) (param_ext_value_entries (sent_by st
         (handle_mavlink_message env addr (PARAM_EXT_REQUEST_LIST param_list) st)))) \<and>
      ((\<forall>x\<in>set (getParamList env
            (objects st (getCameraComponent st (uint (target_component param_list))))).
          length (fst x) \<le> 16 \<and> NUL \<notin> set (fst x)) \<longrightarrow>
        map (\<lambda>e. c_str (fst e)) (param_ext_value_entries (sent_by st
           (handle_mavlink_message env addr (PARAM_EXT_REQUEST_LIST param_list) st)))
          = map fst (getParamList env
              (objects st (getCameraComponent st (uint (target_component param_list))))) \<and>
        sorted_wrt (<) (map (\<lambda>e. c_str (fst e)) (param_ext_value_entries (sent_by st
           (handle_mavlink_message env addr (PARAM_EXT_REQUEST_LIST param_list) st))))))"
proof (intro conjI impI)
  show k: "map fst (paramIdType (new_CameraParameters pm)) =
     [''backlight'', ''brightness'', ''camera-mode'', ''contrast'', ''exp-absolute'',
      ''exp-mode'', ''gain'', ''gamma'', ''hue'', ''image-format'', ''image-size'',
      ''pixel-format'', ''power-mode'', ''saturation'', ''scene-mode'', ''sharpness'',
      ''video-format'', ''video-size'', ''video-snapshot'', ''wb-mode'', ''wb-temp'']"
    by (rule schema_keys)
  show "std_map_ok (paramIdType (new_CameraParameters pm))"
    unfolding std_map_ok_def k by simp
  show "std_map_ok (paramValue (new_CameraParameters pm))"
    by (simp add: std_map_ok_def new_CameraParameters_def initParamIdType_def)
  show "std_map_ok (paramValue (snd (setParameter cp key val)))" if "std_map_ok (paramValue cp)"
    using that by (rule setParameter_keeps_order)
  show "param_ext_value_ids (sent_by st
         (handle_mavlink_message env addr (PARAM_EXT_REQUEST_LIST param_list) st))
        = map (\<lambda>x. strncpy 16 (fst x))
            (getParamList env (objects st (getCameraComponent st (uint (target_component param_list)))))"
    if "getCameraComponent st (uint (target_component param_list)) \<noteq> nullptr"
    using that by (rule request_list_ids)
next
  let ?xs = "getParamList env
      (objects st (getCameraComponent st (uint (target_component param_list))))"
  let ?burst = "sent_by st
      (handle_mavlink_message env addr (PARAM_EXT_REQUEST_LIST param_list) st)"
  assume a: "getCameraComponent st (uint (target_component param_list)) \<noteq> nullptr \<and>
    std_map_ok ?xs"
  then have b: "getCameraComponent st (uint (target_component param_list)) \<noteq> nullptr"
    and ok: "std_map_ok ?xs" by simp_all
  show "param_ext_value_entries ?burst
      = map (\<lambda>x. (strncpy 16 (fst x), Some (strncpy 128 (snd x)))) ?xs"
    using b by (rule request_list_entries)
  show "sorted (map (\<lambda>e. c_str (fst e)) (param_ext_value_entries ?burst))"
    using b ok by (rule burst_in_name_order)
  assume short: "\<forall>x\<in>set ?xs. length (fst x) \<le> 16 \<and> NUL \<notin> set (fst x)"
  show names: "map (\<lambda>e. c_str (fst e)) (param_ext_value_entries ?burst) = map fst ?xs"
    using b short by (rule burst_names_exact)
  show "sorted_wrt (<) (map (\<lambda>e. c_str (fst e)) (param_ext_value_entries ?burst))"
    using ok unfolding names by (simp add: std_map_ok_def)
qed

theorem C8_witness:
  "map c_str (param_ext_value_ids (sent_by example_camera_server
      (handle_mavlink_message example_env example_peer (PARAM_EXT_REQUEST_LIST example_list)
         example_camera_server)))
     = [''brightness'', ''camera-mode''] \<and>
   map (\<lambda>e. c_str (fst e)) (param_ext_value_entries (sent_by example_camera_server
      (handle_mavlink_message example_env example_peer (PARAM_EXT_REQUEST_LIST example_list)
         example_camera_server)))
     = [''brightness'', ''camera-mode''] \<and>
   map (\<lambda>e. map_option c_str (snd e)) (param_ext_value_entries (sent_by example_camera_server
      (handle_mavlink_message example_env example_peer (PARAM_EXT_REQUEST_LIST example_list)
         example_camera_server)))
     = [Some ''64'', Some ''1'']"
proof -
  let ?dev = "objects example_camera_server
      (getCameraComponent example_camera_server (uint (target_component example_list)))"
  let ?burst = "sent_by example_camera_server
      (handle_mavlink_message example_env example_peer (PARAM_EXT_REQUEST_LIST example_list)
         example_camera_server)"
  have xs: "getParamList example_env ?dev = [(''brightness'', ''64''), (''camera-mode'', ''1'')]"
    by (simp add: example_env_def example_store)
  have h: "getCameraComponent example_camera_server (uint (target_component example_list)) \<noteq> nullptr"
    by (simp add: example_list_def example_camera_bound nullptr_def)
  have hm: "std_map_ok (getParamList example_env ?dev)"
    unfolding xs by (simp add: std_map_ok_def)
  have hs: "\<forall>x\<in>set (getParamList example_env ?dev). length (fst x) \<le> 16 \<and> NUL \<notin> set (fst x)"
    unfolding xs by (simp add: NUL_def)
  note t = C8_listing_follows_key_order
    [of example_macros "new_CameraParameters example_macros" CAMERA_MODE "''1''"
        example_camera_server example_list example_env example_peer]
  from t h have ids: "param_ext_value_ids ?burst
      = map (\<lambda>x. strncpy 16 (fst x)) (getParamList example_env ?dev)"
    by blast
  from t h hm have ent: "param_ext_value_entries ?burst
      = map (\<lambda>x. (strncpy 16 (fst x), Some (strncpy 128 (snd x)))) (getParamList example_env ?dev)"
    by blast
  from t h hm hs have names: "map (\<lambda>e. c_str (fst e)) (param_ext_value_entries ?burst)
      = map fst (getParamList example_env ?dev)"
    by blast
  have a: "map c_str (param_ext_value_ids ?burst) = [''brightness'', ''camera-mode'']"
    unfolding ids xs by (simp add: c_str_strncpy) (simp add: c_str_def NUL_def)
  have b: "map (\<lambda>e. c_str (fst e)) (param_ext_value_entries ?burst)
      = [''brightness'', ''camera-mode'']"
    unfolding names xs by simp
  have c: "map (\<lambda>e. map_option c_str (snd e)) (param_ext_value_entries ?burst)
      = [Some ''64'', Some ''1'']"
    unfolding ent xs by (simp add: c_str_strncpy) (simp add: c_str_def NUL_def)
  from a b c show ?thesis by blast
qed

text \<open>
  The claim as stated fails: \<^verbatim>\<open>initParamIdType\<close> inserts \<open>camera-mode\<close> first and
  \<open>brightness\<close> second, while iterating the schema starts with \<open>backlight\<close> and
  \<open>brightness\<close>; and a store in which \<open>camera-mode\<close> was set before \<open>brightness\<close> is
  listed, and sent, with \<open>brightness\<close> first.
\<close>

theorem C8_counterexample:
  "map fst (schema_inserts example_macros) ! 0 = ''camera-mode'' \<and>
   map fst (schema_inserts example_macros) ! 1 = ''brightness'' \<and>
   map fst (paramIdType (new_CameraParameters example_macros)) ! 0 = ''backlight'' \<and>
   map fst (paramIdType (new_CameraParameters example_macros)) ! 1 = ''brightness'' \<and>
   map fst (paramValue (snd (setParameter
      (snd (setParameter (new_CameraParameters example_macros) CAMERA_MODE ''1''))
      BRIGHTNESS ''64''))) = [''brightness'', ''camera-mode''] \<and>
   map c_str (param_ext_value_ids (sent_by example_camera_server
      (handle_mavlink_message example_env example_peer (PARAM_EXT_REQUEST_LIST example_list)
         example_camera_server)))
     = [''brightness'', ''camera-mode'']"
proof -
  have a: "map fst (schema_inserts example_macros) ! 0 = ''camera-mode'' \<and>
           map fst (schema_inserts example_macros) ! 1 = ''brightness''"
    by (simp add: schema_inserts_def CAMERA_MODE_def BRIGHTNESS_def)
  have b: "map fst (paramIdType (new_CameraParameters example_macros)) ! 0 = ''backlight'' \<and>
           map fst (paramIdType (new_CameraParameters example_macros)) ! 1 = ''brightness''"
    by (simp add: schema_keys)
  have c: "map fst (paramValue (snd (setParameter
      (snd (setParameter (new_CameraParameters example_macros) CAMERA_MODE ''1''))
      BRIGHTNESS ''64''))) = [''brightness'', ''camera-mode'']"
    by (simp add: setParameter_def set_str_map_def insert_map_def find_map_def
      new_CameraParameters_def initParamIdType_def CAMERA_MODE_def BRIGHTNESS_def)
  have d: "map c_str (param_ext_value_ids (sent_by example_camera_server
      (handle_mavlink_message example_env example_peer (PARAM_EXT_REQUEST_LIST example_list)
         example_camera_server)))
     = [''brightness'', ''camera-mode'']"
  proof -
    have h: "getCameraComponent example_camera_server (uint (target_component example_list)) \<noteq> nullptr"
      by (simp add: example_list_def example_camera_bound nullptr_def)
    from request_list_ids [OF h, of example_env example_peer] show ?thesis
      by (simp add: example_list_def example_camera_bound example_env_def example_store
          c_str_strncpy) (simp add: c_str_def NUL_def)
  qed
  from a b c d show ?thesis by blast
qed

end
